theory Spec2Isabelle
  imports Main "HOL-Library.AList"
begin

section \<open>Values shared by the server and the client\<close>

text \<open>
  JSON values as Python's \<open>json\<close> module decodes them: \<open>JObj\<close> is a \<open>dict\<close>, kept as an
  association list read with \<^const>\<open>map_of\<close>; \<open>JArr\<close> is a \<open>list\<close>. Numbers are the integers
  (JSON floats are left out).
\<close>

datatype json =
    JNull
  | JBool bool
  | JNum int
  | JStr string
  | JArr "json list"
  | JObj "(string \<times> json) list"

text \<open>Python truthiness of a decoded JSON value, as \<open>if not text\<close> and \<open>if voice_id and ...\<close> read it.\<close>

fun truthy :: "json \<Rightarrow> bool" where
  "truthy JNull = False"
| "truthy (JBool b) = b"
| "truthy (JNum n) = (n \<noteq> 0)"
| "truthy (JStr s) = (s \<noteq> [])"
| "truthy (JArr xs) = (xs \<noteq> [])"
| "truthy (JObj kvs) = (kvs \<noteq> [])"

text \<open>The name of the Python type of a decoded JSON value, as exception messages print it.\<close>

fun py_type_name :: "json \<Rightarrow> string" where
  "py_type_name JNull = ''NoneType''"
| "py_type_name (JBool b) = ''bool''"
| "py_type_name (JNum n) = ''int''"
| "py_type_name (JStr s) = ''str''"
| "py_type_name (JArr xs) = ''list''"
| "py_type_name (JObj kvs) = ''dict''"

text \<open>\<open>d.get(key, default)\<close> on a dict.\<close>

definition dict_get :: "(string \<times> 'v) list \<Rightarrow> string \<Rightarrow> 'v \<Rightarrow> 'v" where
  "dict_get d k dflt = (case map_of d k of None \<Rightarrow> dflt | Some v \<Rightarrow> v)"

text \<open>
  A raised exception: its class name and \<open>str(e)\<close>. Every raise of the source and of the
  library calls it makes is an \<open>Inl\<close> of the result type \<open>exn + 'a\<close>.
\<close>

datatype exn = Exn (exn_class: string) (message: string)

text \<open>\<open>str(n)\<close> of a Python integer, as the f-strings \<open>voice_{int(time.time())}\<close> format it.\<close>

definition digit_char :: "nat \<Rightarrow> char" where
  "digit_char d = ''0123456789'' ! d"

fun str_nat :: "nat \<Rightarrow> string" where
  "str_nat n = (if n < 10 then [digit_char n] else str_nat (n div 10) @ [digit_char (n mod 10)])"

declare str_nat.simps [simp del]

definition str_int :: "int \<Rightarrow> string" where
  "str_int i = (if i < 0 then CHR ''-'' # str_nat (nat (- i)) else str_nat (nat i))"

section \<open>Paths and the file system\<close>

text \<open>\<open>posixpath.join\<close>: a component that starts with a slash discards everything before it.\<close>

definition join2 :: "string \<Rightarrow> string \<Rightarrow> string" where
  "join2 a b =
     (if b \<noteq> [] \<and> hd b = CHR ''/'' then b
      else if a = [] \<or> last a = CHR ''/'' then a @ b
      else a @ ''/'' @ b)"

definition os_path_join :: "string \<Rightarrow> string list \<Rightarrow> string" where
  "os_path_join a ps = foldl join2 a ps"

text \<open>\<open>str.rstrip('/')\<close> and \<open>os.path.expanduser\<close> for the \<open>~/...\<close> paths the source expands,
  with the value of \<open>HOME\<close> as a parameter.\<close>

fun rstrip_slash :: "string \<Rightarrow> string" where
  "rstrip_slash [] = []"
| "rstrip_slash (c # cs) =
     (case rstrip_slash cs of
        [] \<Rightarrow> (if c = CHR ''/'' then [] else [c])
      | r # rs \<Rightarrow> c # r # rs)"

definition expanduser :: "string \<Rightarrow> string \<Rightarrow> string" where
  "expanduser home p =
     (if take 2 p = ''~/'' \<or> p = ''~''
      then (let r = rstrip_slash home @ drop 1 p in if r = [] then ''/'' else r)
      else p)"

text \<open>
  The file system: an association list from resolved absolute paths (lists of
  components; the root is \<open>[]\<close> and always a directory) to nodes. A file's content is kept
  by what \<open>json.load\<close> makes of it: \<open>JsonText j\<close> is the text \<open>json.dump\<close> writes for \<open>j\<close>,
  which \<open>json.load\<close> reads back as \<open>j\<close>; \<open>Bytes\<close> is any other byte string (an uploaded
  recording, an empty or damaged file) and \<open>Wav\<close> a sound file written by \<open>soundfile.write\<close>
  with its sample rate: \<open>json.load\<close> raises on both. Symbolic links, permissions and
  a full disk are not modelled, and relative paths are resolved from the root.
\<close>

type_synonym path = "string list"

datatype content =
    JsonText json
  | Bytes "nat list"
  | Wav nat "int list"

datatype node = Dir | File content

type_synonym filesys = "(path \<times> node) list"

definition is_dir :: "filesys \<Rightarrow> path \<Rightarrow> bool" where
  "is_dir fs p \<longleftrightarrow> p = [] \<or> map_of fs p = Some Dir"

definition present :: "filesys \<Rightarrow> path \<Rightarrow> bool" where
  "present fs p \<longleftrightarrow> p = [] \<or> map_of fs p \<noteq> None"

fun split_slash :: "string \<Rightarrow> string list" where
  "split_slash [] = [[]]"
| "split_slash (c # cs) =
     (if c = CHR ''/'' then [] # split_slash cs
      else (case split_slash cs of [] \<Rightarrow> [[c]] | w # ws \<Rightarrow> (c # w) # ws))"

definition not_a_dir :: "filesys \<Rightarrow> path \<Rightarrow> exn" where
  "not_a_dir fs p =
     (if present fs p then Exn ''NotADirectoryError'' ''[Errno 20] Not a directory''
      else Exn ''FileNotFoundError'' ''[Errno 2] No such file or directory'')"

text \<open>
  Path resolution as the kernel does it: components are followed from \<open>cur\<close>; every
  component other than an empty one needs the place reached so far to be a directory,
  \<open>..\<close> goes to the parent. The place the last component names need not exist.
\<close>

fun walk :: "filesys \<Rightarrow> path \<Rightarrow> string list \<Rightarrow> exn + path" where
  "walk fs cur [] = Inr cur"
| "walk fs cur (c # cs) =
     (if c = [] then walk fs cur cs
      else if \<not> is_dir fs cur then Inl (not_a_dir fs cur)
      else if c = ''.'' then walk fs cur cs
      else if c = ''..'' then walk fs (butlast cur) cs
      else walk fs (cur @ [c]) cs)"

definition resolve :: "filesys \<Rightarrow> string \<Rightarrow> exn + path" where
  "resolve fs p = walk fs [] (split_slash p)"

definition os_path_exists :: "filesys \<Rightarrow> string \<Rightarrow> bool" where
  "os_path_exists fs p = (case resolve fs p of Inl e \<Rightarrow> False | Inr q \<Rightarrow> present fs q)"

text \<open>\<open>os.makedirs(p, exist_ok=True)\<close>: every missing directory on the way is created; a
  regular file on the way is an error.\<close>

fun mkdirs :: "filesys \<Rightarrow> path \<Rightarrow> string list \<Rightarrow> exn + filesys" where
  "mkdirs fs cur [] = Inr fs"
| "mkdirs fs cur (c # cs) =
     (if c = [] then mkdirs fs cur cs
      else if \<not> is_dir fs cur then Inl (not_a_dir fs cur)
      else if c = ''.'' then mkdirs fs cur cs
      else if c = ''..'' then mkdirs fs (butlast cur) cs
      else (case map_of fs (cur @ [c]) of
              None \<Rightarrow> mkdirs (fs @ [(cur @ [c], Dir)]) (cur @ [c]) cs
            | Some Dir \<Rightarrow> mkdirs fs (cur @ [c]) cs
            | Some (File x) \<Rightarrow>
                Inl (if cs = [] then Exn ''FileExistsError'' ''[Errno 17] File exists''
                     else Exn ''NotADirectoryError'' ''[Errno 20] Not a directory'')))"

definition os_makedirs :: "filesys \<Rightarrow> string \<Rightarrow> exn + filesys" where
  "os_makedirs fs p = mkdirs fs [] (split_slash p)"

text \<open>Creating or truncating a file and writing \<open>c\<close> to it (\<open>open(p, "w")\<close>,
  \<open>FileStorage.save\<close>, \<open>soundfile.write\<close>).\<close>

definition write_file :: "filesys \<Rightarrow> string \<Rightarrow> content \<Rightarrow> exn + filesys" where
  "write_file fs p c =
     (case resolve fs p of
        Inl e \<Rightarrow> Inl e
      | Inr q \<Rightarrow>
          if is_dir fs q then Inl (Exn ''IsADirectoryError'' ''[Errno 21] Is a directory'')
          else if \<not> is_dir fs (butlast q) then Inl (not_a_dir fs (butlast q))
          else Inr (AList.update q (File c) fs))"

text \<open>Reading a whole file (\<open>open(p)\<close>, \<open>send_file\<close>).\<close>

definition read_file :: "filesys \<Rightarrow> string \<Rightarrow> exn + content" where
  "read_file fs p =
     (case resolve fs p of
        Inl e \<Rightarrow> Inl e
      | Inr q \<Rightarrow>
          (if q = [] then Inl (Exn ''IsADirectoryError'' ''[Errno 21] Is a directory'')
           else case map_of fs q of
              None \<Rightarrow> Inl (Exn ''FileNotFoundError'' ''[Errno 2] No such file or directory'')
            | Some Dir \<Rightarrow> Inl (Exn ''IsADirectoryError'' ''[Errno 21] Is a directory'')
            | Some (File c) \<Rightarrow> Inr c))"

text \<open>\<open>os.listdir(p)\<close>: the names of the entries of a directory, in the order of the table.\<close>

definition os_listdir :: "filesys \<Rightarrow> string \<Rightarrow> exn + string list" where
  "os_listdir fs p =
     (case resolve fs p of
        Inl e \<Rightarrow> Inl e
      | Inr q \<Rightarrow>
          if \<not> is_dir fs q then Inl (not_a_dir fs q)
          else Inr (map (\<lambda>kn. last (fst kn)) (filter (\<lambda>kn. fst kn \<noteq> [] \<and> butlast (fst kn) = q) fs)))"

text \<open>\<open>json.load(f)\<close> on an open file.\<close>

fun json_load :: "content \<Rightarrow> exn + json" where
  "json_load (JsonText j) = Inr j"
| "json_load (Bytes b) = Inl (Exn ''JSONDecodeError'' ''Expecting value'')"
| "json_load (Wav r xs) = Inl (Exn ''JSONDecodeError'' ''Expecting value'')"

section \<open>The server: \<open>Scripts/server.py\<close>\<close>

text \<open>
  The loaded processor and model are objects of the \<open>transformers\<close> library; the model
  keeps what the source calls on them, each call returning its value or the exception it
  raises. \<open>'i\<close> is the type of the processor's tensors, \<open>'o\<close> of one generated sequence.
\<close>

record ('i, 'o) processor_obj =
  encode :: "filesys \<Rightarrow> json \<Rightarrow> string option \<Rightarrow> exn + 'i"
  decode :: "'o \<Rightarrow> exn + int list"

record ('i, 'o) model_obj =
  generate_tokens :: "'i \<Rightarrow> exn + 'o list"

record ('i, 'o) libs =
  mps_is_available :: bool
  tensors_to :: "string \<Rightarrow> 'i \<Rightarrow> exn + 'i"
  processor_from_pretrained :: "string \<Rightarrow> exn + ('i, 'o) processor_obj"
  model_from_pretrained :: "string \<Rightarrow> string \<Rightarrow> exn + ('i, 'o) model_obj"

text \<open>The module's globals \<open>model\<close> and \<open>processor\<close> (\<open>None\<close> until \<open>load_model\<close> has run), the
  \<open>HOME\<close> the directory constants were expanded with, and the disk.\<close>

record ('i, 'o) server =
  home :: string
  model :: "('i, 'o) model_obj option"
  processor :: "('i, 'o) processor_obj option"
  disk :: filesys

definition MODEL_PATH :: "string \<Rightarrow> string" where
  "MODEL_PATH h = expanduser h ''~/qwen3-tts/model-1.7b''"

definition VOICES_DIR :: "string \<Rightarrow> string" where
  "VOICES_DIR h = expanduser h ''~/qwen3-tts/voices''"

definition OUTPUT_DIR :: "string \<Rightarrow> string" where
  "OUTPUT_DIR h = expanduser h ''~/qwen3-tts/output''"

text \<open>Importing the module: both directories are created, nothing is loaded.\<close>

definition import_server :: "string \<Rightarrow> filesys \<Rightarrow> exn + ('i, 'o) server" where
  "import_server h fs =
     (case os_makedirs fs (VOICES_DIR h) of
        Inl e \<Rightarrow> Inl e
      | Inr fs1 \<Rightarrow>
          (case os_makedirs fs1 (OUTPUT_DIR h) of
             Inl e \<Rightarrow> Inl e
           | Inr fs2 \<Rightarrow> Inr \<lparr>home = h, model = None, processor = None, disk = fs2\<rparr>))"

definition device_name :: "('i, 'o) libs \<Rightarrow> string" where
  "device_name lib = (if mps_is_available lib then ''mps'' else ''cpu'')"

definition load_model :: "('i, 'o) libs \<Rightarrow> ('i, 'o) server \<Rightarrow> exn + ('i, 'o) server" where
  "load_model lib s =
     (let device = device_name lib in
      case processor_from_pretrained lib (MODEL_PATH (home s)) of
        Inl e \<Rightarrow> Inl e
      | Inr p \<Rightarrow>
          (case model_from_pretrained lib (MODEL_PATH (home s)) device of
             Inl e \<Rightarrow> Inl e
           | Inr m \<Rightarrow> Inr (s\<lparr>processor := Some p, model := Some m\<rparr>)))"

text \<open>The script's entry point: the model is loaded, then the application serves. An
  exception of \<open>load_model\<close> ends the process before \<open>app.run\<close>.\<close>

datatype ('i, 'o) process = Exited exn | Serving "('i, 'o) server"

definition main :: "('i, 'o) libs \<Rightarrow> ('i, 'o) server \<Rightarrow> ('i, 'o) process" where
  "main lib s = (case load_model lib s of Inl e \<Rightarrow> Exited e | Inr s' \<Rightarrow> Serving s')"

text \<open>
  Requests and responses. A request carries the uploaded files and form fields of a
  multipart body and the value \<open>request.get_json()\<close> returns; requests that Flask itself
  turns down before the handler runs (a body that is not JSON) are not modelled.
  \<open>ErrorPage\<close> is the page Flask answers with status 500 when a handler lets an
  exception escape.
\<close>

record request =
  files :: "(string \<times> content) list"
  form :: "(string \<times> string) list"
  get_json :: json

datatype body = JsonBody json | FileBody string content | ErrorPage

record response =
  status :: nat
  body :: body

definition jsonify :: "nat \<Rightarrow> json \<Rightarrow> response" where
  "jsonify st j = \<lparr>status = st, body = JsonBody j\<rparr>"

definition internal_server_error :: response where
  "internal_server_error = \<lparr>status = 500, body = ErrorPage\<rparr>"

definition health :: "('i, 'o) server \<Rightarrow> response" where
  "health s = jsonify 200 (JObj [(''status'', JStr ''ok''), (''model'', JStr ''qwen3-tts-1.7b'')])"

text \<open>
  \<open>clone_voice\<close>: \<open>uuid4\<close> is the string \<open>str(uuid.uuid4())\<close> drawn for this call and \<open>now\<close> is
  \<open>int(time.time())\<close>. None of the three file operations is inside a \<open>try\<close>.
\<close>

definition clone_voice ::
  "request \<Rightarrow> string \<Rightarrow> int \<Rightarrow> ('i, 'o) server \<Rightarrow> response \<times> ('i, 'o) server" where
  "clone_voice req uuid4 now s =
     (case map_of (files req) ''audio'' of
        None \<Rightarrow> (jsonify 400 (JObj [(''error'', JStr ''No audio file'')]), s)
      | Some audio_file \<Rightarrow>
          (let name = dict_get (form req) ''name'' (''voice_'' @ str_int now);
               voice_id = take 8 uuid4;
               voice_dir = os_path_join (VOICES_DIR (home s)) [voice_id];
               audio_path = os_path_join voice_dir [''reference.wav''];
               meta = JObj [(''name'', JStr name), (''voice_id'', JStr voice_id),
                            (''audio'', JStr audio_path)]
           in case os_makedirs (disk s) voice_dir of
                Inl e \<Rightarrow> (internal_server_error, s)
              | Inr fs1 \<Rightarrow>
                  (case write_file fs1 audio_path audio_file of
                     Inl e \<Rightarrow> (internal_server_error, s\<lparr>disk := fs1\<rparr>)
                   | Inr fs2 \<Rightarrow>
                       (case write_file fs2 (os_path_join voice_dir [''meta.json''])
                               (JsonText meta) of
                          Inl e \<Rightarrow> (internal_server_error, s\<lparr>disk := fs2\<rparr>)
                        | Inr fs3 \<Rightarrow>
                            (jsonify 200 (JObj [(''voice_id'', JStr voice_id),
                                                (''name'', JStr name)]),
                             s\<lparr>disk := fs3\<rparr>)))))"

text \<open>The disk after each file operation of one \<open>clone_voice\<close> call that completed, in
  order, for a server whose \<open>HOME\<close> is \<open>h\<close> and whose disk is \<open>fs\<close>: the states another
  request, or a restart, can find.\<close>

definition clone_voice_disks ::
  "request \<Rightarrow> string \<Rightarrow> int \<Rightarrow> string \<Rightarrow> filesys \<Rightarrow> filesys list" where
  "clone_voice_disks req uuid4 now h fs =
     (case map_of (files req) ''audio'' of
        None \<Rightarrow> []
      | Some audio_file \<Rightarrow>
          (let name = dict_get (form req) ''name'' (''voice_'' @ str_int now);
               voice_id = take 8 uuid4;
               voice_dir = os_path_join (VOICES_DIR h) [voice_id];
               audio_path = os_path_join voice_dir [''reference.wav''];
               meta = JObj [(''name'', JStr name), (''voice_id'', JStr voice_id),
                            (''audio'', JStr audio_path)]
           in case os_makedirs fs voice_dir of
                Inl e \<Rightarrow> []
              | Inr fs1 \<Rightarrow>
                  (case write_file fs1 audio_path audio_file of
                     Inl e \<Rightarrow> [fs1]
                   | Inr fs2 \<Rightarrow>
                       (case write_file fs2 (os_path_join voice_dir [''meta.json''])
                               (JsonText meta) of
                          Inl e \<Rightarrow> [fs1, fs2]
                        | Inr fs3 \<Rightarrow> [fs1, fs2, fs3]))))"

text \<open>
  \<open>text_to_speech\<close>, lines 87 to 101: the inputs of the model. A \<open>voice_id\<close> that is true
  but not a string makes \<open>os.path.join\<close> raise.
\<close>

definition call_processor ::
  "('i, 'o) server \<Rightarrow> json \<Rightarrow> string option \<Rightarrow> exn + 'i" where
  "call_processor s text audio =
     (case processor s of
        None \<Rightarrow> Inl (Exn ''TypeError'' ''NoneType object is not callable'')
      | Some p \<Rightarrow> encode p (disk s) text audio)"

definition prepare_inputs :: "('i, 'o) server \<Rightarrow> json \<Rightarrow> json \<Rightarrow> exn + 'i" where
  "prepare_inputs s text voice_id =
     (if truthy voice_id then
        (case voice_id of
           JStr v \<Rightarrow>
             if os_path_exists (disk s) (os_path_join (VOICES_DIR (home s)) [v, ''reference.wav''])
             then call_processor s text
                    (Some (os_path_join (VOICES_DIR (home s)) [v, ''reference.wav'']))
             else call_processor s text None
         | _ \<Rightarrow> Inl (Exn ''TypeError''
                    (''expected str, bytes or os.PathLike object, not '' @ py_type_name voice_id)))
      else call_processor s text None)"

text \<open>The body of the \<open>try\<close> (lines 86 to 116): the exception that leaves it, or the response,
  and the server afterwards.\<close>

definition tts_try ::
  "('i, 'o) libs \<Rightarrow> int \<Rightarrow> ('i, 'o) server \<Rightarrow> json \<Rightarrow> json \<Rightarrow> (exn + response) \<times> ('i, 'o) server" where
  "tts_try lib now s text voice_id =
     (case prepare_inputs s text voice_id of
        Inl e \<Rightarrow> (Inl e, s)
      | Inr inputs \<Rightarrow>
     (case tensors_to lib (device_name lib) inputs of
        Inl e \<Rightarrow> (Inl e, s)
      | Inr inputs' \<Rightarrow>
     (case (case model s of
              None \<Rightarrow> Inl (Exn ''AttributeError'' ''NoneType object has no attribute generate'')
            | Some m \<Rightarrow> generate_tokens m inputs') of
        Inl e \<Rightarrow> (Inl e, s)
      | Inr [] \<Rightarrow> (Inl (Exn ''IndexError'' ''index 0 is out of bounds''), s)
      | Inr (output0 # rest) \<Rightarrow>
     (case (case processor s of
              None \<Rightarrow> Inl (Exn ''AttributeError'' ''NoneType object has no attribute decode'')
            | Some p \<Rightarrow> decode p output0) of
        Inl e \<Rightarrow> (Inl e, s)
      | Inr audio_array \<Rightarrow>
     (let output_path = os_path_join (OUTPUT_DIR (home s)) [''memo_'' @ str_int now @ ''.wav''] in
      case write_file (disk s) output_path (Wav 24000 audio_array) of
        Inl e \<Rightarrow> (Inl e, s)
      | Inr fs' \<Rightarrow>
     (case read_file fs' output_path of
        Inl e \<Rightarrow> (Inl e, s\<lparr>disk := fs'\<rparr>)
      | Inr c \<Rightarrow> (Inr \<lparr>status = 200, body = FileBody ''audio/wav'' c\<rparr>, s\<lparr>disk := fs'\<rparr>)))))))"

definition text_to_speech ::
  "('i, 'o) libs \<Rightarrow> request \<Rightarrow> int \<Rightarrow> ('i, 'o) server \<Rightarrow> response \<times> ('i, 'o) server" where
  "text_to_speech lib req now s =
     (case get_json req of
        JObj data \<Rightarrow>
          (let text = dict_get data ''text'' (JStr '''');
               voice_id = dict_get data ''voice_id'' (JStr '''')
           in if \<not> truthy text then (jsonify 400 (JObj [(''error'', JStr ''No text provided'')]), s)
              else (case tts_try lib now s text voice_id of
                      (Inl e, s') \<Rightarrow> (jsonify 500 (JObj [(''error'', JStr (message e))]), s')
                    | (Inr r, s') \<Rightarrow> (r, s')))
      | _ \<Rightarrow> (internal_server_error, s))"

text \<open>\<open>list_voices\<close>: the loop over the directory listing, then the handler. Nothing here
  is inside a \<open>try\<close>.\<close>

fun list_voices_loop :: "('i, 'o) server \<Rightarrow> string list \<Rightarrow> json list \<Rightarrow> exn + json list" where
  "list_voices_loop s [] voices = Inr voices"
| "list_voices_loop s (d # ds) voices =
     (let meta_path = os_path_join (VOICES_DIR (home s)) [d, ''meta.json''] in
      if os_path_exists (disk s) meta_path then
        (case read_file (disk s) meta_path of
           Inl e \<Rightarrow> Inl e
         | Inr f \<Rightarrow>
             (case json_load f of
                Inl e \<Rightarrow> Inl e
              | Inr v \<Rightarrow> list_voices_loop s ds (voices @ [v])))
      else list_voices_loop s ds voices)"

definition list_voices :: "('i, 'o) server \<Rightarrow> response" where
  "list_voices s =
     (case os_listdir (disk s) (VOICES_DIR (home s)) of
        Inl e \<Rightarrow> internal_server_error
      | Inr ds \<Rightarrow>
          (case list_voices_loop s ds [] of
             Inl e \<Rightarrow> internal_server_error
           | Inr voices \<Rightarrow> jsonify 200 (JObj [(''voices'', JArr voices)])))"

section \<open>The client: \<open>Skills/local-tts/speak.py\<close>\<close>

text \<open>
  What \<open>urllib.request.urlopen\<close> gives: a response with its status and the outcome of
  \<open>read()\<close>, or a raised \<open>HTTPError\<close> with its code and body, or any other exception
  (connection refused, timeout). The network is a parameter: what a \<open>GET\<close> of a URL and a
  \<open>POST\<close> of a JSON document to a URL are answered with.
\<close>

datatype url_exn = HTTPError nat string | OtherError exn

record url_response =
  resp_status :: nat
  resp_read :: "exn + nat list"

record network =
  http_get :: "string \<Rightarrow> url_exn + url_response"
  http_post :: "string \<Rightarrow> json \<Rightarrow> url_exn + url_response"

datatype http_call = GET string | POST string json

text \<open>The client process: what it has printed on standard output and on standard error
  (one entry per \<open>print\<close>), its disk, its \<open>HOME\<close>, and the requests it has sent.\<close>

record client =
  stdout :: "string list"
  stderr :: "string list"
  cdisk :: filesys
  chome :: string
  sent :: "http_call list"

definition SERVER :: string where
  "SERVER = ''http://localhost:5123''"

definition CLIENT_OUTPUT_DIR :: "string \<Rightarrow> string" where
  "CLIENT_OUTPUT_DIR h = expanduser h ''~/.clawdbot/media/tts''"

definition urlopen_get :: "network \<Rightarrow> string \<Rightarrow> client \<Rightarrow> (url_exn + url_response) \<times> client" where
  "urlopen_get net url c = (http_get net url, c\<lparr>sent := sent c @ [GET url]\<rparr>)"

definition urlopen_post ::
  "network \<Rightarrow> string \<Rightarrow> json \<Rightarrow> client \<Rightarrow> (url_exn + url_response) \<times> client" where
  "urlopen_post net url d c = (http_post net url d, c\<lparr>sent := sent c @ [POST url d]\<rparr>)"

definition check_server :: "network \<Rightarrow> client \<Rightarrow> bool \<times> client" where
  "check_server net c =
     (case urlopen_get net (SERVER @ ''/health'') c of
        (Inl e, c') \<Rightarrow> (False, c')
      | (Inr r, c') \<Rightarrow> (resp_status r = 200, c'))"

definition server_down_lines :: "string list" where
  "server_down_lines =
     [''Erreur: serveur local non d'' @ [char_of (233::nat)] @ ''marr'' @ [char_of (233::nat)]
        @ ''. Lance VoiceCloneMemo ou:'',
      ''  bash ~/.voiceclonememo/start.sh'']"

text \<open>
  \<open>generate\<close>: \<open>Inl n\<close> is \<open>sys.exit(n)\<close>, \<open>Inr p\<close> the returned path. \<open>voice_id\<close> is \<open>None\<close> or a
  string, \<open>now\<close> is \<open>int(time.time())\<close>.
\<close>

definition generate ::
  "network \<Rightarrow> string \<Rightarrow> string option \<Rightarrow> int \<Rightarrow> client \<Rightarrow> (nat + string) \<times> client" where
  "generate net text voice_id now c =
     (case check_server net c of
        (False, c1) \<Rightarrow> (Inl 1, c1\<lparr>stderr := stderr c1 @ server_down_lines\<rparr>)
      | (True, c1) \<Rightarrow>
          (let payload = [(''text'', JStr text)] @
                 (case voice_id of
                    None \<Rightarrow> []
                  | Some v \<Rightarrow> if v \<noteq> [] then [(''voice_id'', JStr v)] else [])
           in case urlopen_post net (SERVER @ ''/v1/tts'') (JObj payload) c1 of
                (Inl (HTTPError code error_body), c2) \<Rightarrow>
                  (Inl 1, c2\<lparr>stderr := stderr c2 @
                     [''Erreur API: '' @ str_nat code @ '' - '' @ error_body]\<rparr>)
              | (Inl (OtherError e), c2) \<Rightarrow>
                  (Inl 1, c2\<lparr>stderr := stderr c2 @ [''Erreur: '' @ message e]\<rparr>)
              | (Inr resp, c2) \<Rightarrow>
                  (case resp_read resp of
                     Inl e \<Rightarrow> (Inl 1, c2\<lparr>stderr := stderr c2 @ [''Erreur: '' @ message e]\<rparr>)
                   | Inr audio_data \<Rightarrow>
                       (let output_path = os_path_join (CLIENT_OUTPUT_DIR (chome c2))
                                            [''tts_'' @ str_int now @ ''.wav'']
                        in case write_file (cdisk c2) output_path (Bytes audio_data) of
                             Inl e \<Rightarrow>
                               (Inl 1, c2\<lparr>stderr := stderr c2 @ [''Erreur: '' @ message e]\<rparr>)
                           | Inr fs' \<Rightarrow>
                               (Inr output_path,
                                c2\<lparr>cdisk := fs', stdout := stdout c2 @ [output_path]\<rparr>)))))"

section \<open>Properties\<close>

text \<open>A response that tells the caller the service is ready: status 200 and a JSON body
  whose \<open>status\<close> member is \<open>ok\<close>.\<close>

definition reports_ready :: "response \<Rightarrow> bool" where
  "reports_ready r \<longleftrightarrow>
     status r = 200 \<and>
     (case body r of
        JsonBody (JObj kvs) \<Rightarrow> map_of kvs ''status'' = Some (JStr ''ok'')
      | _ \<Rightarrow> False)"

text \<open>
  What a \<open>GET /health\<close> is answered by the process that \<open>main\<close> leaves: the response of
  \<open>health\<close> when it serves, nothing (the connection is refused) when it has exited.
\<close>

definition health_answer :: "('i, 'o) process \<Rightarrow> response option" where
  "health_answer p = (case p of Exited e \<Rightarrow> None | Serving s \<Rightarrow> Some (health s))"

text \<open>
  The states in which the running program answers requests: the state \<open>main\<close> starts to
  serve in, from the imported module \<open>s0\<close>, and the state after each request that changes
  the server (\<open>health\<close> and \<open>list_voices\<close> change nothing).
\<close>

inductive serving :: "('i, 'o) libs \<Rightarrow> ('i, 'o) server \<Rightarrow> ('i, 'o) server \<Rightarrow> bool"
  for lib :: "('i, 'o) libs" and s0 :: "('i, 'o) server" where
  boot: "main lib s0 = Serving s \<Longrightarrow> serving lib s0 s"
| cloned: "serving lib s0 s \<Longrightarrow> serving lib s0 (snd (clone_voice req uuid4 now s))"
| spoken: "serving lib s0 s \<Longrightarrow> serving lib s0 (snd (text_to_speech lib req now s))"

text \<open>A server right after the module was imported with \<open>HOME=/home/u\<close> on an empty disk:
  nothing is loaded.\<close>

definition unloaded_server :: "(nat, nat) server" where
  "unloaded_server =
     \<lparr>home = ''/home/u'', model = None, processor = None,
      disk = [([''home''], Dir), ([''home'', ''u''], Dir),
              ([''home'', ''u'', ''qwen3-tts''], Dir),
              ([''home'', ''u'', ''qwen3-tts'', ''voices''], Dir),
              ([''home'', ''u'', ''qwen3-tts'', ''output''], Dir)]\<rparr>"

text \<open>Libraries, a processor and a model for concrete runs: tensors and sequences are
  numbers; the second model raises on every input.\<close>

definition demo_processor :: "(nat, nat) processor_obj" where
  "demo_processor =
     \<lparr>encode = (\<lambda>fs text audio. case audio of None \<Rightarrow> Inr 10 | Some a \<Rightarrow> Inr 20),
      decode = (\<lambda>out. Inr [int out])\<rparr>"

definition demo_model :: "(nat, nat) model_obj" where
  "demo_model = \<lparr>generate_tokens = (\<lambda>i. Inr [i])\<rparr>"

definition failing_model :: "(nat, nat) model_obj" where
  "failing_model = \<lparr>generate_tokens = (\<lambda>i. Inl (Exn ''RuntimeError'' ''MPS backend out of memory''))\<rparr>"

definition demo_libs :: "(nat, nat) libs" where
  "demo_libs =
     \<lparr>mps_is_available = False,
      tensors_to = (\<lambda>device i. Inr i),
      processor_from_pretrained = (\<lambda>p. Inr demo_processor),
      model_from_pretrained = (\<lambda>p device. Inr demo_model)\<rparr>"

definition demo_disk :: filesys where
  "demo_disk =
     [([''home''], Dir), ([''home'', ''u''], Dir),
      ([''home'', ''u'', ''qwen3-tts''], Dir),
      ([''home'', ''u'', ''qwen3-tts'', ''voices''], Dir),
      ([''home'', ''u'', ''qwen3-tts'', ''output''], Dir)]"

definition demo_server :: "(nat, nat) server" where
  "demo_server =
     \<lparr>home = ''/home/u'', model = Some demo_model, processor = Some demo_processor,
      disk = demo_disk\<rparr>"

definition failing_server :: "(nat, nat) server" where
  "failing_server = demo_server\<lparr>model := Some failing_model\<rparr>"

definition hello_request :: request where
  "hello_request = \<lparr>files = [], form = [], get_json = JObj [(''text'', JStr ''hello world'')]\<rparr>"

text \<open>A network on which nothing listens, one whose server answers, and a client that has
  printed nothing yet.\<close>

definition dead_network :: network where
  "dead_network =
     \<lparr>http_get = (\<lambda>url. Inl (OtherError (Exn ''URLError'' ''Connection refused''))),
      http_post = (\<lambda>url d. Inl (OtherError (Exn ''URLError'' ''Connection refused'')))\<rparr>"

definition live_network :: network where
  "live_network =
     \<lparr>http_get = (\<lambda>url. Inr \<lparr>resp_status = 200, resp_read = Inr []\<rparr>),
      http_post = (\<lambda>url d. Inr \<lparr>resp_status = 200, resp_read = Inr [82, 73, 70, 70]\<rparr>)\<rparr>"

definition demo_client :: client where
  "demo_client =
     \<lparr>stdout = [], stderr = [],
      cdisk = [([''home''], Dir), ([''home'', ''u''], Dir),
               ([''home'', ''u'', ''.clawdbot''], Dir),
               ([''home'', ''u'', ''.clawdbot'', ''media''], Dir),
               ([''home'', ''u'', ''.clawdbot'', ''media'', ''tts''], Dir)],
      chome = ''/home/u'', sent = []\<rparr>"

text \<open>The path \<open>text_to_speech\<close> looks for when the request names the voice \<open>v\<close>.\<close>

definition reference_path :: "('i, 'o) server \<Rightarrow> string \<Rightarrow> string" where
  "reference_path s v = os_path_join (VOICES_DIR (home s)) [v, ''reference.wav'']"

text \<open>The request with the \<open>voice_id\<close> member taken out of its JSON object.\<close>

definition without_voice_id :: "request \<Rightarrow> request" where
  "without_voice_id req =
     (case get_json req of
        JObj data \<Rightarrow> req\<lparr>get_json := JObj (filter (\<lambda>kv. fst kv \<noteq> ''voice_id'') data)\<rparr>
      | _ \<Rightarrow> req)"

text \<open>A disk that holds one registered voice, \<open>deadbeef\<close>, named Alice; and a server on it.\<close>

definition alice_meta :: json where
  "alice_meta =
     JObj [(''name'', JStr ''Alice''), (''voice_id'', JStr ''deadbeef''),
           (''audio'', JStr ''/home/u/qwen3-tts/voices/deadbeef/reference.wav'')]"

definition alice_disk :: filesys where
  "alice_disk =
     demo_disk @
     [([''home'', ''u'', ''qwen3-tts'', ''voices'', ''deadbeef''], Dir),
      ([''home'', ''u'', ''qwen3-tts'', ''voices'', ''deadbeef'', ''reference.wav''],
       File (Bytes [82, 73, 70, 70])),
      ([''home'', ''u'', ''qwen3-tts'', ''voices'', ''deadbeef'', ''meta.json''],
       File (JsonText alice_meta))]"

definition alice_server :: "(nat, nat) server" where
  "alice_server = demo_server\<lparr>disk := alice_disk\<rparr>"

definition voice_request :: "string \<Rightarrow> request" where
  "voice_request v =
     \<lparr>files = [], form = [],
      get_json = JObj [(''text'', JStr ''hello world''), (''voice_id'', JStr v)]\<rparr>"

text \<open>
  A name that is one path component: not empty, without a slash, and neither \<open>.\<close> nor
  \<open>..\<close>. The first eight characters of a \<open>uuid4\<close> string are hexadecimal digits, hence
  such a name.
\<close>

definition plain_name :: "string \<Rightarrow> bool" where
  "plain_name n \<longleftrightarrow> n \<noteq> [] \<and> CHR ''/'' \<notin> set n \<and> n \<noteq> ''.'' \<and> n \<noteq> ''..''"

definition hex8 :: "string \<Rightarrow> bool" where
  "hex8 u \<longleftrightarrow> 8 \<le> length u \<and> set (take 8 u) \<subseteq> set ''0123456789abcdef''"

text \<open>
  The voices directory of a server with \<open>HOME\<close> \<open>h\<close> is the directory at \<open>Vp\<close> on the disk; and,
  on such a disk, every \<open>meta.json\<close> one level below it has a \<open>reference.wav\<close> beside it.
\<close>

definition voices_at :: "string \<Rightarrow> filesys \<Rightarrow> path \<Rightarrow> bool" where
  "voices_at h fs Vp \<longleftrightarrow> resolve fs (VOICES_DIR h) = Inr Vp \<and> is_dir fs Vp"

definition meta_has_audio :: "filesys \<Rightarrow> path \<Rightarrow> bool" where
  "meta_has_audio fs Vp \<longleftrightarrow>
     (\<forall>d. map_of fs (Vp @ [d, ''meta.json'']) \<noteq> None
          \<longrightarrow> map_of fs (Vp @ [d, ''reference.wav'']) \<noteq> None)"

text \<open>
  The disks that can be found on the machine of a server with \<open>HOME\<close> \<open>h\<close>: a disk on which
  the voices directory exists and every \<open>meta.json\<close> has its \<open>reference.wav\<close>; the disk
  after any completed file operation of a \<open>clone_voice\<close> call (with a \<open>uuid4\<close> string); the
  disk after the one write of a \<open>text_to_speech\<close> call.
\<close>

inductive persisted :: "string \<Rightarrow> filesys \<Rightarrow> bool" for h :: string where
  start: "voices_at h fs Vp \<Longrightarrow> meta_has_audio fs Vp \<Longrightarrow> persisted h fs"
| clone: "persisted h fs \<Longrightarrow> hex8 uuid4 \<Longrightarrow>
          fs' \<in> set (clone_voice_disks req uuid4 now h fs) \<Longrightarrow> persisted h fs'"
| speech: "persisted h fs \<Longrightarrow>
           write_file fs (os_path_join (OUTPUT_DIR h) [''memo_'' @ str_int now @ ''.wav''])
             (Wav 24000 audio) = Inr fs' \<Longrightarrow> persisted h fs'"

text \<open>The disk between the two writes of a first \<open>clone_voice\<close> call on the demo server.\<close>

definition half_cloned_disk :: filesys where
  "half_cloned_disk =
     demo_disk @
     [([''home'', ''u'', ''qwen3-tts'', ''voices'', ''deadbeef''], Dir),
      ([''home'', ''u'', ''qwen3-tts'', ''voices'', ''deadbeef'', ''reference.wav''],
       File (Bytes [82, 73, 70, 70]))]"

definition clone_request :: request where
  "clone_request =
     \<lparr>files = [(''audio'', Bytes [82, 73, 70, 70])], form = [(''name'', ''Alice'')],
      get_json = JNull\<rparr>"

text \<open>Two \<open>uuid4\<close> strings that agree on their first eight characters.\<close>

definition uuid_a :: string where
  "uuid_a = ''deadbeef-0000-4000-8000-000000000001''"

definition uuid_b :: string where
  "uuid_b = ''deadbeef-ffff-4fff-bfff-fffffffffffe''"

definition uuid_c :: string where
  "uuid_c = ''0badc0de-0000-4000-8000-000000000002''"

text \<open>A clone request whose audio part is an empty upload, and a second named request.\<close>

definition empty_audio_request :: request where
  "empty_audio_request = \<lparr>files = [(''audio'', Bytes [])], form = [], get_json = JNull\<rparr>"

definition bob_request :: request where
  "bob_request =
     \<lparr>files = [(''audio'', Bytes [1, 2, 3])], form = [(''name'', ''Bob'')], get_json = JNull\<rparr>"

text \<open>
  Nothing is in the way of storing a voice under the name \<open>n\<close> in the voices directory at
  \<open>Vp\<close>: \<open>n\<close> is not a regular file there, and neither \<open>reference.wav\<close> nor \<open>meta.json\<close>
  below it is a directory.
\<close>

definition registry_accepts :: "filesys \<Rightarrow> path \<Rightarrow> string \<Rightarrow> bool" where
  "registry_accepts fs Vp n \<longleftrightarrow>
     (\<forall>x. map_of fs (Vp @ [n]) \<noteq> Some (File x))
     \<and> map_of fs (Vp @ [n, ''reference.wav'']) \<noteq> Some Dir
     \<and> map_of fs (Vp @ [n, ''meta.json'']) \<noteq> Some Dir"

text \<open>Libraries whose model files cannot be loaded.\<close>

definition broken_libs :: "(nat, nat) libs" where
  "broken_libs =
     demo_libs\<lparr>model_from_pretrained :=
       (\<lambda>p device. Inl (Exn ''OSError'' ''model-1.7b is not a valid model directory''))\<rparr>"

text \<open>Synthesize requests: one whose \<open>voice_id\<close> is the number 5, and one whose JSON body is
  \<open>null\<close>.\<close>

definition number_voice_request :: request where
  "number_voice_request =
     \<lparr>files = [], form = [],
      get_json = JObj [(''text'', JStr ''hello world''), (''voice_id'', JNum 5)]\<rparr>"

definition null_body_request :: request where
  "null_body_request = \<lparr>files = [], form = [], get_json = JNull\<rparr>"

text \<open>The path of the metadata record \<open>list_voices\<close> looks for in the entry \<open>d\<close>, and the
  records it finds there: the decoded document when the path exists and holds one.\<close>

definition meta_path :: "('i, 'o) server \<Rightarrow> string \<Rightarrow> string" where
  "meta_path s d = os_path_join (VOICES_DIR (home s)) [d, ''meta.json'']"

definition record_of :: "('i, 'o) server \<Rightarrow> string \<Rightarrow> json list" where
  "record_of s d =
     (if os_path_exists (disk s) (meta_path s d)
      then (case read_file (disk s) (meta_path s d) of
              Inr (JsonText j) \<Rightarrow> [j]
            | _ \<Rightarrow> [])
      else [])"

text \<open>
  Two more registries: beside Alice's voice, one has a directory \<open>0badc0de\<close> with a
  recording and no \<open>meta.json\<close>; the other has a directory \<open>cafebabe\<close> whose \<open>meta.json\<close> is
  an empty file.
\<close>

definition mixed_server :: "(nat, nat) server" where
  "mixed_server =
     demo_server\<lparr>disk := alice_disk @
       [([''home'', ''u'', ''qwen3-tts'', ''voices'', ''0badc0de''], Dir),
        ([''home'', ''u'', ''qwen3-tts'', ''voices'', ''0badc0de'', ''reference.wav''],
         File (Bytes [1, 2, 3]))]\<rparr>"

definition corrupt_server :: "(nat, nat) server" where
  "corrupt_server =
     demo_server\<lparr>disk := alice_disk @
       [([''home'', ''u'', ''qwen3-tts'', ''voices'', ''cafebabe''], Dir),
        ([''home'', ''u'', ''qwen3-tts'', ''voices'', ''cafebabe'', ''reference.wav''],
         File (Bytes [1, 2, 3])),
        ([''home'', ''u'', ''qwen3-tts'', ''voices'', ''cafebabe'', ''meta.json''],
         File (Bytes []))]\<rparr>"

text \<open>
  A path lies inside the voices directory of the server when both resolve and the
  resolved voices directory is a prefix of the resolved path. And a server on whose
  disk a recording \<open>/home/u/secret/reference.wav\<close> lies outside the voices directory.
\<close>

definition inside_voices :: "('i, 'o) server \<Rightarrow> string \<Rightarrow> bool" where
  "inside_voices s p =
     (case resolve (disk s) (VOICES_DIR (home s)) of
        Inl e \<Rightarrow> False
      | Inr V \<Rightarrow> (case resolve (disk s) p of Inl e \<Rightarrow> False | Inr q \<Rightarrow> take (length V) q = V))"

definition escape_server :: "(nat, nat) server" where
  "escape_server =
     demo_server\<lparr>disk := alice_disk @
       [([''home'', ''u'', ''secret''], Dir),
        ([''home'', ''u'', ''secret'', ''reference.wav''], File (Bytes [9, 9, 9]))]\<rparr>"

section \<open>Lemmas\<close>

lemma VOICES_DIR_u [simp]: "VOICES_DIR ''/home/u'' = ''/home/u/qwen3-tts/voices''"
  by (simp add: VOICES_DIR_def expanduser_def)

lemma OUTPUT_DIR_u [simp]: "OUTPUT_DIR ''/home/u'' = ''/home/u/qwen3-tts/output''"
  by (simp add: OUTPUT_DIR_def expanduser_def)

lemma import_on_empty_disk: "import_server ''/home/u'' [] = Inr unloaded_server"
  by (simp add: import_server_def os_makedirs_def is_dir_def unloaded_server_def)

lemma main_serves_loaded:
  "main lib s = Serving s' \<Longrightarrow> model s' \<noteq> None \<and> processor s' \<noteq> None"
  by (auto simp: main_def load_model_def Let_def split: sum.splits)

lemma tts_try_keeps_globals:
  "tts_try lib now s text voice_id = (r, s') \<Longrightarrow>
     model s' = model s \<and> processor s' = processor s \<and> home s' = home s"
  by (auto simp: tts_try_def Let_def split: sum.splits list.splits option.splits)

lemma generate_failure_leaves_try:
  assumes "prepare_inputs s text voice_id = Inr i"
    and "tensors_to lib (device_name lib) i = Inr i'"
    and "model s = Some m" and "generate_tokens m i' = Inl e"
  shows "tts_try lib now s text voice_id = (Inl e, s)"
  using assms by (simp add: tts_try_def)

lemma decode_failure_leaves_try:
  assumes "prepare_inputs s text voice_id = Inr i"
    and "tensors_to lib (device_name lib) i = Inr i'"
    and "model s = Some m" and "generate_tokens m i' = Inr (out # rest)"
    and "processor s = Some p" and "decode p out = Inl e"
  shows "tts_try lib now s text voice_id = (Inl e, s)"
  using assms by (simp add: tts_try_def)

lemma write_failure_leaves_try:
  assumes "prepare_inputs s text voice_id = Inr i"
    and "tensors_to lib (device_name lib) i = Inr i'"
    and "model s = Some m" and "generate_tokens m i' = Inr (out # rest)"
    and "processor s = Some p" and "decode p out = Inr audio"
    and "write_file (disk s) (os_path_join (OUTPUT_DIR (home s)) [''memo_'' @ str_int now @ ''.wav''])
           (Wav 24000 audio) = Inl e"
  shows "tts_try lib now s text voice_id = (Inl e, s)"
  using assms by (simp add: tts_try_def)

lemma failing_server_try:
  "tts_try demo_libs 7 failing_server (JStr ''hello world'') (JStr '''')
     = (Inl (Exn ''RuntimeError'' ''MPS backend out of memory''), failing_server)"
  by (rule generate_failure_leaves_try [where i = 10 and i' = 10 and m = failing_model])
     (simp_all add: prepare_inputs_def call_processor_def failing_server_def demo_server_def
        demo_processor_def demo_libs_def failing_model_def)

lemmas path_eval = os_path_join_def join2_def expanduser_def resolve_def is_dir_def present_def
  str_int_def str_nat.simps digit_char_def Let_def

lemma live_generate:
  "fst (generate live_network ''bonjour'' None 7 demo_client)
     = Inr ''/home/u/.clawdbot/media/tts/tts_7.wav''"
  by (simp add: generate_def check_server_def urlopen_get_def urlopen_post_def
        live_network_def demo_client_def SERVER_def CLIENT_OUTPUT_DIR_def write_file_def
        path_eval)

lemma dead_check: "\<not> fst (check_server dead_network demo_client)"
  by (simp add: check_server_def urlopen_get_def dead_network_def)

lemma dict_get_filter_other:
  "k \<noteq> k' \<Longrightarrow> dict_get (filter (\<lambda>kv. fst kv \<noteq> k') d) k dflt = dict_get d k dflt"
  by (induction d) (auto simp: dict_get_def)

lemma dict_get_filter_same:
  "dict_get (filter (\<lambda>kv. fst kv \<noteq> k) d) k dflt = dflt"
  by (induction d) (auto simp: dict_get_def)

lemma prepare_inputs_unconditioned:
  assumes "\<not> truthy vid \<or> (\<exists>v. vid = JStr v \<and> \<not> os_path_exists (disk s) (reference_path s v))"
  shows "prepare_inputs s text vid = call_processor s text None"
  using assms by (auto simp: prepare_inputs_def reference_path_def)

lemma tts_try_unconditioned:
  assumes "\<not> truthy vid \<or> (\<exists>v. vid = JStr v \<and> \<not> os_path_exists (disk s) (reference_path s v))"
  shows "tts_try lib now s text vid = tts_try lib now s text (JStr '''')"
  using prepare_inputs_unconditioned [OF assms, of "text"]
        prepare_inputs_unconditioned [of "JStr ''''" s "text"]
  by (simp add: tts_try_def)

lemmas fs_eval = os_path_exists_def write_file_def read_file_def os_listdir_def os_makedirs_def

lemma alice_resolves:
  "os_path_exists (disk alice_server) (reference_path alice_server ''deadbeef'')"
  by (simp add: alice_server_def alice_disk_def demo_disk_def demo_server_def reference_path_def
        fs_eval path_eval)

lemma nobody_unresolved:
  "\<not> os_path_exists (disk alice_server) (reference_path alice_server ''0badc0de'')"
  by (simp add: alice_server_def alice_disk_def demo_disk_def demo_server_def reference_path_def
        fs_eval path_eval)

lemma alice_processor:
  "call_processor alice_server t None = Inr 10"
  "call_processor alice_server t (Some a) = Inr 20"
  by (simp_all add: call_processor_def alice_server_def demo_server_def demo_processor_def)

lemma split_slash_nonempty [simp]: "split_slash s \<noteq> []"
  by (induction s) (auto split: list.splits)

lemma split_slash_plain: "CHR ''/'' \<notin> set n \<Longrightarrow> split_slash n = [n]"
  by (induction n) auto

lemma split_slash_append:
  "split_slash (a @ CHR ''/'' # b) = split_slash a @ split_slash b"
  by (induction a) (auto split: list.splits)

lemma walk_append:
  "walk fs cur (xs @ ys) = (case walk fs cur xs of Inl e \<Rightarrow> Inl e | Inr q \<Rightarrow> walk fs q ys)"
  by (induction xs arbitrary: cur) auto

lemma walk_dir_start:
  "walk fs cur xs = Inr q \<Longrightarrow> is_dir fs q \<Longrightarrow> is_dir fs cur"
  by (induction xs arbitrary: cur) (auto split: if_splits)

lemma walk_mono:
  assumes "\<And>p. is_dir fs p \<Longrightarrow> is_dir fs' p"
  shows "walk fs cur xs = Inr q \<Longrightarrow> walk fs' cur xs = Inr q"
  using assms by (induction xs arbitrary: cur) (auto split: if_splits)

lemma mkdirs_after_walk:
  "walk fs cur xs = Inr q \<Longrightarrow> is_dir fs q \<Longrightarrow> mkdirs fs cur (xs @ ys) = mkdirs fs q ys"
proof (induction xs arbitrary: cur)
  case Nil
  then show ?case by simp
next
  case (Cons c cs)
  show ?case
  proof (cases "c = [] \<or> c = ''.'' \<or> c = ''..''")
    case True
    with Cons show ?thesis by (auto split: if_splits)
  next
    case False
    with Cons.prems have w: "walk fs (cur @ [c]) cs = Inr q" and d: "is_dir fs cur"
      by (auto split: if_splits)
    from walk_dir_start [OF w Cons.prems(2)] have "map_of fs (cur @ [c]) = Some Dir"
      by (simp add: is_dir_def)
    with False d Cons.IH [OF w Cons.prems(2)] show ?thesis by simp
  qed
qed

lemma walk_plain:
  "plain_name n \<Longrightarrow> is_dir fs cur \<Longrightarrow> walk fs cur [n] = Inr (cur @ [n])"
  by (simp add: plain_name_def)

lemma mkdirs_plain:
  "plain_name n \<Longrightarrow> is_dir fs cur \<Longrightarrow>
     mkdirs fs cur [n] =
       (case map_of fs (cur @ [n]) of
          None \<Rightarrow> Inr (fs @ [(cur @ [n], Dir)])
        | Some Dir \<Rightarrow> Inr fs
        | Some (File x) \<Rightarrow> Inl (Exn ''FileExistsError'' ''[Errno 17] File exists''))"
  by (auto simp: plain_name_def split: option.splits node.splits)

lemma VOICES_DIR_shape: "VOICES_DIR h \<noteq> [] \<and> last (VOICES_DIR h) \<noteq> CHR ''/''"
  by (simp add: VOICES_DIR_def expanduser_def)

lemma OUTPUT_DIR_shape: "OUTPUT_DIR h \<noteq> [] \<and> last (OUTPUT_DIR h) \<noteq> CHR ''/''"
  by (simp add: OUTPUT_DIR_def expanduser_def)

lemma join_plain:
  "a \<noteq> [] \<Longrightarrow> last a \<noteq> CHR ''/'' \<Longrightarrow> plain_name n \<Longrightarrow> join2 a n = a @ CHR ''/'' # n"
  by (cases n) (auto simp: join2_def plain_name_def)

lemma plain_last: "plain_name n \<Longrightarrow> last n \<noteq> CHR ''/''"
  by (metis last_in_set plain_name_def)

lemma join_plain2:
  assumes "a \<noteq> []" "last a \<noteq> CHR ''/''" "plain_name n" "plain_name m"
  shows "os_path_join a [n, m] = a @ CHR ''/'' # n @ CHR ''/'' # m"
proof -
  have n: "n \<noteq> []" using assms(3) by (simp add: plain_name_def)
  have 1: "join2 a n = a @ CHR ''/'' # n" by (rule join_plain [OF assms(1-3)])
  have 2: "join2 (a @ CHR ''/'' # n) m = (a @ CHR ''/'' # n) @ CHR ''/'' # m"
    using plain_last [OF assms(3)] n by (intro join_plain [OF _ _ assms(4)]) simp_all
  show ?thesis by (simp add: os_path_join_def 1 2)
qed

lemma split_join1:
  "a \<noteq> [] \<Longrightarrow> last a \<noteq> CHR ''/'' \<Longrightarrow> plain_name n \<Longrightarrow>
     split_slash (os_path_join a [n]) = split_slash a @ [n]"
  by (simp add: os_path_join_def join_plain split_slash_append split_slash_plain plain_name_def)

lemma split_join2:
  "a \<noteq> [] \<Longrightarrow> last a \<noteq> CHR ''/'' \<Longrightarrow> plain_name n \<Longrightarrow> plain_name m \<Longrightarrow>
     split_slash (os_path_join a [n, m]) = split_slash a @ [n, m]"
  using split_slash_append [of "a @ CHR ''/'' # n" m] split_slash_append [of a n]
  by (simp add: join_plain2 split_slash_plain plain_name_def)

lemma hex8_plain: "hex8 u \<Longrightarrow> plain_name (take 8 u)"
proof -
  assume h: "hex8 u"
  then have len: "length (take 8 u) = 8" by (simp add: hex8_def)
  have ne: "take 8 u \<noteq> x" if "length x \<noteq> 8" for x
    using len that by auto
  have "CHR ''/'' \<notin> set (take 8 u)" using h by (auto simp: hex8_def)
  with ne [of "[]"] ne [of "''.''"] ne [of "''..''"] show ?thesis
    by (simp add: plain_name_def)
qed

lemma plain_reference [simp]: "plain_name ''reference.wav''"
  by (simp add: plain_name_def)

lemma plain_meta [simp]: "plain_name ''meta.json''"
  by (simp add: plain_name_def)

lemma voices_at_mono:
  assumes "voices_at h fs Vp" and "\<And>p. is_dir fs p \<Longrightarrow> is_dir fs' p"
  shows "voices_at h fs' Vp"
  using assms walk_mono [of fs fs' "[]" "split_slash (VOICES_DIR h)" Vp]
  by (simp add: voices_at_def resolve_def)

lemma makedirs_voice_dir:
  assumes "voices_at h fs Vp" and "plain_name n"
  shows "os_makedirs fs (os_path_join (VOICES_DIR h) [n]) =
           (case map_of fs (Vp @ [n]) of
              None \<Rightarrow> Inr (fs @ [(Vp @ [n], Dir)])
            | Some Dir \<Rightarrow> Inr fs
            | Some (File x) \<Rightarrow> Inl (Exn ''FileExistsError'' ''[Errno 17] File exists''))"
proof -
  from assms(1) have w: "walk fs [] (split_slash (VOICES_DIR h)) = Inr Vp" and d: "is_dir fs Vp"
    by (simp_all add: voices_at_def resolve_def)
  have "os_makedirs fs (os_path_join (VOICES_DIR h) [n])
          = mkdirs fs [] (split_slash (VOICES_DIR h) @ [n])"
    using VOICES_DIR_shape [of h] assms(2) by (simp add: os_makedirs_def split_join1)
  also have "\<dots> = mkdirs fs Vp [n]" by (rule mkdirs_after_walk [OF w d])
  also note mkdirs_plain [OF assms(2) d]
  finally show ?thesis .
qed

lemma resolve_in_voice_dir:
  assumes "voices_at h fs Vp" and "plain_name n" and "plain_name m"
  shows "resolve fs (os_path_join (VOICES_DIR h) [n, m]) =
           (if is_dir fs (Vp @ [n]) then Inr (Vp @ [n, m]) else Inl (not_a_dir fs (Vp @ [n])))"
proof -
  from assms(1) have w: "walk fs [] (split_slash (VOICES_DIR h)) = Inr Vp" and d: "is_dir fs Vp"
    by (simp_all add: voices_at_def resolve_def)
  have "resolve fs (os_path_join (VOICES_DIR h) [n, m])
          = walk fs [] (split_slash (VOICES_DIR h) @ [n, m])"
    using VOICES_DIR_shape [of h] assms(2,3) by (simp add: resolve_def split_join2)
  also have "\<dots> = walk fs Vp [n, m]" by (simp add: walk_append w)
  also have "\<dots> = (if is_dir fs (Vp @ [n]) then Inr (Vp @ [n, m]) else Inl (not_a_dir fs (Vp @ [n])))"
    using assms(2,3) d by (simp add: plain_name_def)
  finally show ?thesis .
qed

lemma join_join: "os_path_join (os_path_join a [n]) [m] = os_path_join a [n, m]"
  by (simp add: os_path_join_def)

lemma exists_in_voice_dir:
  assumes "voices_at h fs Vp" and "plain_name n" and "plain_name m"
  shows "os_path_exists fs (os_path_join (VOICES_DIR h) [n, m])
           \<longleftrightarrow> is_dir fs (Vp @ [n]) \<and> map_of fs (Vp @ [n, m]) \<noteq> None"
  by (simp add: os_path_exists_def resolve_in_voice_dir [OF assms] present_def)

lemma write_in_voice_dir:
  assumes "voices_at h fs Vp" and "plain_name n" and "plain_name m"
  shows "write_file fs (os_path_join (VOICES_DIR h) [n, m]) c =
           (if \<not> is_dir fs (Vp @ [n]) then Inl (not_a_dir fs (Vp @ [n]))
            else if map_of fs (Vp @ [n, m]) = Some Dir
            then Inl (Exn ''IsADirectoryError'' ''[Errno 21] Is a directory'')
            else Inr (AList.update (Vp @ [n, m]) (File c) fs))"
  by (simp add: write_file_def resolve_in_voice_dir [OF assms] is_dir_def butlast_append)

lemma is_dir_snoc:
  "map_of fs k = None \<Longrightarrow> is_dir (fs @ [(k, Dir)]) p \<longleftrightarrow> is_dir fs p \<or> p = k"
  by (auto simp: is_dir_def map_add_def split: option.splits)

lemma map_of_snoc:
  "map_of fs k = None \<Longrightarrow> map_of (fs @ [(k, v)]) p = (if p = k then Some v else map_of fs p)"
  by (auto simp: map_add_def split: option.splits)

lemma is_dir_update_file:
  "\<not> is_dir fs q \<Longrightarrow> is_dir (AList.update q (File c) fs) p \<longleftrightarrow> is_dir fs p"
  by (auto simp: is_dir_def update_conv')

lemma map_of_update: "map_of (AList.update q v fs) p = (if p = q then Some v else map_of fs p)"
  by (simp add: update_conv')

lemma makedirs_voice_dir_effect:
  assumes v: "voices_at h fs Vp" and n: "plain_name n"
    and mk: "os_makedirs fs (os_path_join (VOICES_DIR h) [n]) = Inr fs1"
  shows "voices_at h fs1 Vp" and "is_dir fs1 (Vp @ [n])"
    and "\<And>p. p \<noteq> Vp @ [n] \<Longrightarrow> map_of fs1 p = map_of fs p"
    and "\<And>p. is_dir fs p \<Longrightarrow> is_dir fs1 p"
proof -
  from mk have c: "(map_of fs (Vp @ [n]) = None \<and> fs1 = fs @ [(Vp @ [n], Dir)])
                 \<or> (map_of fs (Vp @ [n]) = Some Dir \<and> fs1 = fs)"
    unfolding makedirs_voice_dir [OF v n] by (auto split: option.splits node.splits)
  then show d: "\<And>p. is_dir fs p \<Longrightarrow> is_dir fs1 p"
    by (auto simp: is_dir_snoc)
  show "voices_at h fs1 Vp" by (rule voices_at_mono [OF v d])
  from c show "is_dir fs1 (Vp @ [n])" by (auto simp: is_dir_snoc) (simp add: is_dir_def)
  from c show "\<And>p. p \<noteq> Vp @ [n] \<Longrightarrow> map_of fs1 p = map_of fs p"
    by (auto simp: map_add_def split: option.splits)
qed

lemma write_in_voice_dir_effect:
  assumes v: "voices_at h fs Vp" and n: "plain_name n" and m: "plain_name m"
    and wr: "write_file fs (os_path_join (VOICES_DIR h) [n, m]) c = Inr fs'"
  shows "voices_at h fs' Vp" and "is_dir fs (Vp @ [n])"
    and "\<And>p. map_of fs' p = (if p = Vp @ [n, m] then Some (File c) else map_of fs p)"
    and "\<And>p. is_dir fs' p \<longleftrightarrow> is_dir fs p"
proof -
  from wr have c: "is_dir fs (Vp @ [n])" "map_of fs (Vp @ [n, m]) \<noteq> Some Dir"
    "fs' = AList.update (Vp @ [n, m]) (File c) fs"
    unfolding write_in_voice_dir [OF v n m] by (auto split: if_splits)
  show "is_dir fs (Vp @ [n])" by fact
  show e: "\<And>p. map_of fs' p = (if p = Vp @ [n, m] then Some (File c) else map_of fs p)"
    by (simp add: c(3) map_of_update)
  show d: "\<And>p. is_dir fs' p \<longleftrightarrow> is_dir fs p"
    using c(2) by (auto simp: e is_dir_def)
  show "voices_at h fs' Vp" by (rule voices_at_mono [OF v]) (simp add: d)
qed

lemma clone_voice_disks_invariant:
  assumes v: "voices_at h fs Vp" and inv: "meta_has_audio fs Vp"
    and n: "plain_name (take 8 u)"
    and mem: "fs' \<in> set (clone_voice_disks req u now h fs)"
  shows "voices_at h fs' Vp \<and> meta_has_audio fs' Vp"
proof -
  let ?n = "take 8 u"
  let ?V = "VOICES_DIR h"
  from mem obtain a where a: "map_of (files req) ''audio'' = Some a"
    by (cases "map_of (files req) ''audio''") (auto simp: clone_voice_disks_def)
  from mem a obtain fs1 where mk: "os_makedirs fs (os_path_join ?V [?n]) = Inr fs1"
    by (cases "os_makedirs fs (os_path_join ?V [?n])") (auto simp: clone_voice_disks_def Let_def)
  note e1 = makedirs_voice_dir_effect [OF v n mk]
  have i1: "meta_has_audio fs1 Vp"
    using inv e1(3) by (simp add: meta_has_audio_def)
  show ?thesis
  proof (cases "write_file fs1 (os_path_join ?V [?n, ''reference.wav'']) a")
    case (Inl e)
    with mem a mk have "fs' = fs1"
      by (simp add: clone_voice_disks_def Let_def join_join)
    with e1(1) i1 show ?thesis by simp
  next
    case (Inr fs2)
    note e2 = write_in_voice_dir_effect [OF e1(1) n plain_reference Inr]
    have i2: "meta_has_audio fs2 Vp"
      using i1 by (auto simp: meta_has_audio_def e2(3))
    let ?meta = "JsonText (JObj [(''name'', JStr (dict_get (form req) ''name'' (''voice_'' @ str_int now))),
                   (''voice_id'', JStr ?n),
                   (''audio'', JStr (os_path_join ?V [?n, ''reference.wav'']))])"
    show ?thesis
    proof (cases "write_file fs2 (os_path_join ?V [?n, ''meta.json'']) ?meta")
      case (Inl e)
      with mem a mk \<open>write_file fs1 _ a = Inr fs2\<close> have "fs' = fs1 \<or> fs' = fs2"
        by (simp add: clone_voice_disks_def Let_def join_join)
      with e1(1) i1 e2(1) i2 show ?thesis by auto
    next
      case (Inr fs3)
      note e3 = write_in_voice_dir_effect [OF e2(1) n plain_meta Inr]
      have i3: "meta_has_audio fs3 Vp"
        using i2 by (auto simp: meta_has_audio_def e3(3) e2(3))
      from mem a mk \<open>write_file fs1 _ a = Inr fs2\<close> Inr have "fs' = fs1 \<or> fs' = fs2 \<or> fs' = fs3"
        by (simp add: clone_voice_disks_def Let_def join_join)
      with e1(1) i1 e2(1) i2 e3(1) i3 show ?thesis by auto
    qed
  qed
qed

lemma clone_voice_disks_complete:
  assumes v: "voices_at h fs Vp" and n: "plain_name (take 8 u)"
    and all: "clone_voice_disks req u now h fs = [fs1, fs2, fs3]"
  shows "os_path_exists fs3 (os_path_join (VOICES_DIR h) [take 8 u, ''reference.wav''])
         \<and> os_path_exists fs3 (os_path_join (VOICES_DIR h) [take 8 u, ''meta.json''])"
proof -
  let ?n = "take 8 u"
  let ?V = "VOICES_DIR h"
  let ?meta = "JsonText (JObj [(''name'', JStr (dict_get (form req) ''name'' (''voice_'' @ str_int now))),
                 (''voice_id'', JStr ?n),
                 (''audio'', JStr (os_path_join ?V [?n, ''reference.wav'']))])"
  from all obtain a where a: "map_of (files req) ''audio'' = Some a"
    by (cases "map_of (files req) ''audio''") (auto simp: clone_voice_disks_def)
  from all a have mk: "os_makedirs fs (os_path_join ?V [?n]) = Inr fs1"
    and w1: "write_file fs1 (os_path_join ?V [?n, ''reference.wav'']) a = Inr fs2"
    and w2: "write_file fs2 (os_path_join ?V [?n, ''meta.json'']) ?meta = Inr fs3"
    by (auto simp: clone_voice_disks_def Let_def join_join split: sum.splits)
  note e1 = makedirs_voice_dir_effect [OF v n mk]
  note e2 = write_in_voice_dir_effect [OF e1(1) n plain_reference w1]
  note e3 = write_in_voice_dir_effect [OF e2(1) n plain_meta w2]
  have d: "is_dir fs3 (Vp @ [?n])" using e1(2) e2(4) e3(4) by simp
  show ?thesis
    using d by (simp add: exists_in_voice_dir [OF e3(1) n] e3(3) e2(3))
qed

lemma clone_voice_disk_is_last:
  "disk (snd (clone_voice req u now s))
     = last (disk s # clone_voice_disks req u now (home s) (disk s))"
  by (simp add: clone_voice_def clone_voice_disks_def Let_def split: option.splits sum.splits)

lemma digit_char_not_slash: "d < 10 \<Longrightarrow> digit_char d \<noteq> CHR ''/''"
proof -
  assume "d < 10"
  then have "digit_char d \<in> set ''0123456789''"
    unfolding digit_char_def by (intro nth_mem) simp
  then show ?thesis by auto
qed

lemma str_nat_no_slash: "CHR ''/'' \<notin> set (str_nat n)"
proof (induction n rule: str_nat.induct)
  case (1 n)
  show ?case
  proof (cases "n < 10")
    case True
    then show ?thesis using digit_char_not_slash [of n] by (subst str_nat.simps) auto
  next
    case False
    have "n mod 10 < 10" by simp
    from digit_char_not_slash [OF this] 1 False show ?thesis
      by (subst str_nat.simps) auto
  qed
qed

lemma str_int_no_slash: "CHR ''/'' \<notin> set (str_int i)"
  by (simp add: str_int_def str_nat_no_slash)

lemma plain_memo: "plain_name (''memo_'' @ str_int now @ ''.wav'')"
  by (simp add: plain_name_def str_int_no_slash)

lemma write_file_effect:
  assumes "write_file fs p c = Inr fs'"
  obtains q where "resolve fs p = Inr q" and "\<not> is_dir fs q"
    and "fs' = AList.update q (File c) fs"
  using assms by (auto simp: write_file_def split: sum.splits if_splits)

lemma resolve_child:
  assumes "a \<noteq> []" "last a \<noteq> CHR ''/''" "plain_name n" "resolve fs (os_path_join a [n]) = Inr q"
  shows "q \<noteq> [] \<and> last q = n"
proof -
  have "walk fs [] (split_slash a @ [n]) = Inr q"
    using assms by (simp add: resolve_def split_join1)
  then obtain q0 where "walk fs q0 [n] = Inr q"
    by (auto simp: walk_append split: sum.splits)
  with assms(3) show ?thesis by (auto simp: plain_name_def split: if_splits)
qed

lemma speech_write_invariant:
  assumes v: "voices_at h fs Vp" and inv: "meta_has_audio fs Vp"
    and wr: "write_file fs (os_path_join (OUTPUT_DIR h) [''memo_'' @ str_int now @ ''.wav'']) c
               = Inr fs'"
  shows "voices_at h fs' Vp \<and> meta_has_audio fs' Vp"
proof -
  from wr obtain q where q: "resolve fs (os_path_join (OUTPUT_DIR h) [''memo_'' @ str_int now @ ''.wav'']) = Inr q"
    and nd: "\<not> is_dir fs q" and fs': "fs' = AList.update q (File c) fs"
    by (rule write_file_effect)
  from resolve_child [OF _ _ plain_memo q] OUTPUT_DIR_shape [of h]
  have l: "q \<noteq> []" "last q = ''memo_'' @ str_int now @ ''.wav''" by simp_all
  have ne: "q \<noteq> Vp @ [d, ''meta.json'']" for d
  proof
    assume "q = Vp @ [d, ''meta.json'']"
    then have "last q = ''meta.json''" by simp
    with l(2) show False by simp
  qed
  have "meta_has_audio fs' Vp"
    using inv ne by (auto simp: meta_has_audio_def fs' map_of_update)
  moreover have "voices_at h fs' Vp"
    by (rule voices_at_mono [OF v]) (simp add: fs' is_dir_update_file [OF nd])
  ultimately show ?thesis by simp
qed

lemma persisted_invariant:
  "persisted h fs \<Longrightarrow> \<exists>Vp. voices_at h fs Vp \<and> meta_has_audio fs Vp"
proof (induction rule: persisted.induct)
  case (start fs Vp)
  then show ?case by blast
next
  case (clone fs uuid4 fs' req now)
  then obtain Vp where "voices_at h fs Vp" "meta_has_audio fs Vp" by blast
  from clone_voice_disks_invariant [OF this hex8_plain [OF clone.hyps(2)] clone.hyps(3)]
  show ?case by blast
next
  case (speech fs now audio fs')
  then obtain Vp where "voices_at h fs Vp" "meta_has_audio fs Vp" by blast
  from speech_write_invariant [OF this speech.hyps(2)] show ?case by blast
qed

lemma tts_disk_effect:
  "disk (snd (text_to_speech lib req now s)) = disk s
   \<or> (\<exists>audio. write_file (disk s)
                 (os_path_join (OUTPUT_DIR (home s)) [''memo_'' @ str_int now @ ''.wav''])
                 (Wav 24000 audio) = Inr (disk (snd (text_to_speech lib req now s))))"
  by (auto simp: text_to_speech_def tts_try_def Let_def
           split: json.splits sum.splits list.splits option.splits)

lemmas demo_eval = demo_disk_def half_cloned_disk_def alice_disk_def alice_meta_def
  clone_request_def uuid_a_def uuid_b_def uuid_c_def empty_audio_request_def bob_request_def

lemma demo_voices_at: "voices_at ''/home/u'' demo_disk [''home'', ''u'', ''qwen3-tts'', ''voices'']"
  by (simp add: voices_at_def demo_disk_def path_eval)

lemma demo_meta_has_audio: "meta_has_audio demo_disk [''home'', ''u'', ''qwen3-tts'', ''voices'']"
  by (simp add: meta_has_audio_def demo_disk_def)

lemma demo_persisted: "persisted ''/home/u'' demo_disk"
  by (rule persisted.start [OF demo_voices_at demo_meta_has_audio])

lemma hex8_uuid_a: "hex8 uuid_a"
  by (simp add: hex8_def uuid_a_def)

lemma demo_clone_disks:
  "clone_voice_disks clone_request uuid_a 7 ''/home/u'' demo_disk =
     [demo_disk @ [([''home'', ''u'', ''qwen3-tts'', ''voices'', ''deadbeef''], Dir)],
      half_cloned_disk, alice_disk]"
  by (simp add: clone_voice_disks_def demo_eval dict_get_def fs_eval path_eval)

lemma half_cloned_persisted: "persisted ''/home/u'' half_cloned_disk"
  by (rule persisted.clone [OF demo_persisted hex8_uuid_a, of _ clone_request 7])
     (simp add: demo_clone_disks)

lemma half_cloned_exists:
  "os_path_exists half_cloned_disk ''/home/u/qwen3-tts/voices/deadbeef/reference.wav''"
  "\<not> os_path_exists half_cloned_disk ''/home/u/qwen3-tts/voices/deadbeef/meta.json''"
  by (simp_all add: demo_eval fs_eval path_eval)

lemma health_ready: "reports_ready (health s)"
  by (simp add: health_def jsonify_def reports_ready_def)

lemma clone_voice_keeps_globals:
  "model (snd (clone_voice req u now s)) = model s
   \<and> processor (snd (clone_voice req u now s)) = processor s
   \<and> home (snd (clone_voice req u now s)) = home s"
  by (simp add: clone_voice_def Let_def split: option.splits sum.splits)

lemma text_to_speech_keeps_globals:
  "model (snd (text_to_speech lib req now s)) = model s
   \<and> processor (snd (text_to_speech lib req now s)) = processor s
   \<and> home (snd (text_to_speech lib req now s)) = home s"
proof (cases "get_json req")
  case (JObj data)
  obtain r s' where t: "tts_try lib now s (dict_get data ''text'' (JStr ''''))
                          (dict_get data ''voice_id'' (JStr '''')) = (r, s')"
    by (cases "tts_try lib now s (dict_get data ''text'' (JStr ''''))
                 (dict_get data ''voice_id'' (JStr ''''))")
  from tts_try_keeps_globals [OF t] t JObj show ?thesis
    by (cases r) (simp_all add: text_to_speech_def Let_def)
qed (simp_all add: text_to_speech_def)

lemma serving_loaded: "serving lib s0 s \<Longrightarrow> model s \<noteq> None \<and> processor s \<noteq> None"
proof (induction rule: serving.induct)
  case (boot s)
  then show ?case by (simp add: main_serves_loaded)
next
  case (cloned s req uuid4 now)
  then show ?case by (simp add: clone_voice_keeps_globals)
next
  case (spoken s req now)
  then show ?case by (simp add: text_to_speech_keeps_globals)
qed

lemma demo_serving: "serving demo_libs unloaded_server demo_server"
  by (rule serving.boot)
     (simp add: main_def load_model_def demo_libs_def unloaded_server_def demo_server_def
        demo_disk_def)

lemma broken_load:
  "load_model broken_libs unloaded_server
     = Inl (Exn ''OSError'' ''model-1.7b is not a valid model directory'')"
  by (simp add: load_model_def broken_libs_def demo_libs_def)

lemma alice_unconditioned_try:
  assumes "prepare_inputs alice_server t v = Inr 10"
  shows "tts_try demo_libs 7 alice_server t v
           = (Inr \<lparr>status = 200, body = FileBody ''audio/wav'' (Wav 24000 [10])\<rparr>,
              alice_server\<lparr>disk := alice_disk @
                [([''home'', ''u'', ''qwen3-tts'', ''output'', ''memo_7.wav''],
                  File (Wav 24000 [10]))]\<rparr>)"
  using assms
  by (simp add: tts_try_def alice_server_def demo_server_def demo_libs_def device_name_def
        demo_model_def demo_processor_def demo_eval fs_eval path_eval)

lemma hello_request_tts:
  "fst (text_to_speech demo_libs hello_request 7 alice_server)
     = \<lparr>status = 200, body = FileBody ''audio/wav'' (Wav 24000 [10])\<rparr>"
  using alice_unconditioned_try [of "JStr ''hello world''" "JStr ''''"]
  by (simp add: text_to_speech_def hello_request_def dict_get_def prepare_inputs_def
        alice_processor)

lemma number_voice_request_tts:
  "fst (text_to_speech demo_libs number_voice_request 7 alice_server)
     = \<lparr>status = 500,
        body = JsonBody (JObj [(''error'',
                 JStr ''expected str, bytes or os.PathLike object, not int'')])\<rparr>"
  by (simp add: text_to_speech_def number_voice_request_def dict_get_def tts_try_def
        prepare_inputs_def jsonify_def)

lemma clone_voice_succeeds:
  assumes v: "voices_at (home s) (disk s) Vp" and n: "plain_name (take 8 u)"
    and acc: "registry_accepts (disk s) Vp (take 8 u)"
    and a: "map_of (files req) ''audio'' = Some a"
  shows "fst (clone_voice req u now s) =
           jsonify 200 (JObj [(''voice_id'', JStr (take 8 u)),
              (''name'', JStr (dict_get (form req) ''name'' (''voice_'' @ str_int now)))])"
proof -
  let ?n = "take 8 u"
  let ?V = "VOICES_DIR (home s)"
  let ?meta = "JsonText (JObj [(''name'', JStr (dict_get (form req) ''name'' (''voice_'' @ str_int now))),
                 (''voice_id'', JStr ?n),
                 (''audio'', JStr (os_path_join ?V [?n, ''reference.wav'']))])"
  have "\<exists>fs1. os_makedirs (disk s) (os_path_join ?V [?n]) = Inr fs1"
  proof (cases "map_of (disk s) (Vp @ [?n])")
    case None
    then show ?thesis by (simp add: makedirs_voice_dir [OF v n])
  next
    case (Some nd)
    with acc show ?thesis
      by (cases nd) (simp_all add: makedirs_voice_dir [OF v n] registry_accepts_def)
  qed
  then obtain fs1 where mk: "os_makedirs (disk s) (os_path_join ?V [?n]) = Inr fs1" by blast
  note e1 = makedirs_voice_dir_effect [OF v n mk]
  from acc e1(2) e1(3) [of "Vp @ [?n, ''reference.wav'']"]
  obtain fs2 where w1: "write_file fs1 (os_path_join ?V [?n, ''reference.wav'']) a = Inr fs2"
    unfolding write_in_voice_dir [OF e1(1) n plain_reference]
    by (auto simp: registry_accepts_def)
  note e2 = write_in_voice_dir_effect [OF e1(1) n plain_reference w1]
  from acc e1(2) e2(4) e2(3) [of "Vp @ [?n, ''meta.json'']"] e1(3) [of "Vp @ [?n, ''meta.json'']"]
  obtain fs3 where w2: "write_file fs2 (os_path_join ?V [?n, ''meta.json'']) ?meta = Inr fs3"
    unfolding write_in_voice_dir [OF e2(1) n plain_meta]
    by (auto simp: registry_accepts_def)
  show ?thesis
    using a mk w1 w2 by (simp add: clone_voice_def Let_def join_join)
qed

lemma clone_voice_outcomes:
  assumes "map_of (files req) ''audio'' = Some a"
  shows "fst (clone_voice req u now s) =
           jsonify 200 (JObj [(''voice_id'', JStr (take 8 u)),
              (''name'', JStr (dict_get (form req) ''name'' (''voice_'' @ str_int now)))])
         \<or> fst (clone_voice req u now s) = internal_server_error"
  using assms by (simp add: clone_voice_def Let_def split: sum.splits)

lemma demo_accepts:
  "voices_at (home demo_server) (disk demo_server) [''home'', ''u'', ''qwen3-tts'', ''voices'']
   \<and> registry_accepts (disk demo_server) [''home'', ''u'', ''qwen3-tts'', ''voices''] (take 8 uuid_a)"
  using demo_voices_at
  by (simp add: demo_server_def registry_accepts_def demo_disk_def uuid_a_def)

lemma clone_voice_ok_id:
  assumes "fst (clone_voice req u now s) = jsonify 200 (JObj [(''voice_id'', JStr i), (''name'', JStr n)])"
  shows "i = take 8 u"
proof (cases "map_of (files req) ''audio''")
  case None
  with assms show ?thesis by (simp add: clone_voice_def jsonify_def)
next
  case (Some a)
  from clone_voice_outcomes [OF Some, of u now s] assms show ?thesis
    by (auto simp: jsonify_def internal_server_error_def)
qed

lemma hex8_uuid_b: "hex8 uuid_b"
  by (simp add: hex8_def uuid_b_def)

lemma hex8_uuid_c: "hex8 uuid_c"
  by (simp add: hex8_def uuid_c_def)

lemma alice_clone:
  "clone_voice clone_request uuid_a 7 demo_server
     = (\<lparr>status = 200,
         body = JsonBody (JObj [(''voice_id'', JStr ''deadbeef''), (''name'', JStr ''Alice'')])\<rparr>,
        alice_server)"
  by (simp add: clone_voice_def alice_server_def demo_server_def demo_eval dict_get_def
        jsonify_def fs_eval path_eval)

lemma bob_clone_collides:
  "fst (clone_voice bob_request uuid_b 8 alice_server)
     = \<lparr>status = 200,
        body = JsonBody (JObj [(''voice_id'', JStr ''deadbeef''), (''name'', JStr ''Bob'')])\<rparr>"
  by (simp add: clone_voice_def alice_server_def demo_server_def demo_eval dict_get_def
        jsonify_def fs_eval path_eval)

lemma bob_clone_fresh:
  "fst (clone_voice bob_request uuid_c 8 alice_server)
     = \<lparr>status = 200,
        body = JsonBody (JObj [(''voice_id'', JStr ''0badc0de''), (''name'', JStr ''Bob'')])\<rparr>"
  by (simp add: clone_voice_def alice_server_def demo_server_def demo_eval dict_get_def
        jsonify_def fs_eval path_eval)

lemma bob_replaces_alice:
  "list_voices (snd (clone_voice bob_request uuid_b 8 alice_server))
     = \<lparr>status = 200,
        body = JsonBody (JObj [(''voices'',
          JArr [JObj [(''name'', JStr ''Bob''), (''voice_id'', JStr ''deadbeef''),
                      (''audio'', JStr ''/home/u/qwen3-tts/voices/deadbeef/reference.wav'')]])])\<rparr>"
  by (simp add: list_voices_def clone_voice_def alice_server_def demo_server_def demo_eval
        dict_get_def jsonify_def fs_eval path_eval)

lemma list_voices_loop_parsable:
  assumes "\<forall>d \<in> set ds. os_path_exists (disk s) (meta_path s d) \<longrightarrow>
             (\<exists>j. read_file (disk s) (meta_path s d) = Inr (JsonText j))"
  shows "list_voices_loop s ds voices = Inr (voices @ concat (map (record_of s) ds))"
  using assms
proof (induction ds arbitrary: voices)
  case Nil
  then show ?case by simp
next
  case (Cons d ds)
  show ?case
  proof (cases "os_path_exists (disk s) (meta_path s d)")
    case False
    with Cons show ?thesis by (simp add: record_of_def meta_path_def)
  next
    case True
    with Cons.prems obtain j where "read_file (disk s) (meta_path s d) = Inr (JsonText j)"
      by auto
    with True Cons show ?thesis by (simp add: record_of_def meta_path_def)
  qed
qed

lemma corrupt_listing:
  "list_voices corrupt_server = \<lparr>status = 500, body = ErrorPage\<rparr>"
  by (simp add: list_voices_def corrupt_server_def demo_server_def demo_eval
        internal_server_error_def fs_eval path_eval)

lemma corrupt_entry:
  "os_listdir (disk corrupt_server) (VOICES_DIR (home corrupt_server)) = Inr [''deadbeef'', ''cafebabe'']"
  "read_file (disk corrupt_server) (meta_path corrupt_server ''cafebabe'') = Inr (Bytes [])"
  "json_load (Bytes []) = Inl (Exn ''JSONDecodeError'' ''Expecting value'')"
  by (simp_all add: corrupt_server_def demo_server_def demo_eval meta_path_def fs_eval path_eval)

lemma mixed_listing_facts:
  "os_listdir (disk mixed_server) (VOICES_DIR (home mixed_server)) = Inr [''deadbeef'', ''0badc0de'']"
  "os_path_exists (disk mixed_server) (meta_path mixed_server ''deadbeef'')"
  "read_file (disk mixed_server) (meta_path mixed_server ''deadbeef'') = Inr (JsonText alice_meta)"
  "\<not> os_path_exists (disk mixed_server) (meta_path mixed_server ''0badc0de'')"
  by (simp_all add: mixed_server_def demo_server_def demo_disk_def alice_disk_def meta_path_def
        fs_eval path_eval)

lemma escape_paths:
  "reference_path escape_server ''../../secret''
     = ''/home/u/qwen3-tts/voices/../../secret/reference.wav''"
  "reference_path escape_server ''/home/u/secret'' = ''/home/u/secret/reference.wav''"
  by (simp_all add: reference_path_def escape_server_def demo_server_def os_path_join_def join2_def)

lemma escape_resolves:
  "resolve (disk escape_server) (VOICES_DIR (home escape_server))
     = Inr [''home'', ''u'', ''qwen3-tts'', ''voices'']"
  "resolve (disk escape_server) ''/home/u/qwen3-tts/voices/../../secret/reference.wav''
     = Inr [''home'', ''u'', ''secret'', ''reference.wav'']"
  "resolve (disk escape_server) ''/home/u/secret/reference.wav''
     = Inr [''home'', ''u'', ''secret'', ''reference.wav'']"
  "os_path_exists (disk escape_server) ''/home/u/qwen3-tts/voices/../../secret/reference.wav''"
  "os_path_exists (disk escape_server) ''/home/u/secret/reference.wav''"
  by (simp_all add: escape_server_def demo_server_def demo_disk_def alice_disk_def
        fs_eval path_eval)

lemma escape_processor:
  "call_processor escape_server t (Some a) = Inr 20"
  by (simp add: call_processor_def escape_server_def demo_server_def demo_processor_def)

lemma escape_tts:
  "fst (text_to_speech demo_libs (voice_request ''../../secret'') 7 escape_server)
     = \<lparr>status = 200, body = FileBody ''audio/wav'' (Wav 24000 [20])\<rparr>"
proof -
  have p: "prepare_inputs escape_server (JStr ''hello world'') (JStr ''../../secret'') = Inr 20"
    using escape_paths(1) escape_resolves(4)
    by (simp add: prepare_inputs_def reference_path_def escape_processor)
  have "fst (tts_try demo_libs 7 escape_server (JStr ''hello world'') (JStr ''../../secret''))
          = Inr \<lparr>status = 200, body = FileBody ''audio/wav'' (Wav 24000 [20])\<rparr>"
    by (simp add: tts_try_def p)
       (simp add: escape_server_def demo_server_def demo_libs_def device_name_def
          demo_model_def demo_processor_def demo_disk_def alice_disk_def fs_eval path_eval)
  then obtain s' where
    "tts_try demo_libs 7 escape_server (JStr ''hello world'') (JStr ''../../secret'')
       = (Inr \<lparr>status = 200, body = FileBody ''audio/wav'' (Wav 24000 [20])\<rparr>, s')"
    by (cases "tts_try demo_libs 7 escape_server (JStr ''hello world'') (JStr ''../../secret'')")
       simp
  then show ?thesis
    by (simp add: text_to_speech_def voice_request_def dict_get_def)
qed

section \<open>The claims\<close>

text \<open>
  C1: in every state in which the running program answers requests, the model and the
  processor are loaded and Health reports ready. The script serves only once \<open>load_model\<close>
  has returned: a health check is answered ready exactly when the load succeeded, and a
  process whose load failed has exited and answers no health check at all.
\<close>

theorem health_reflects_readiness:
  "(serving lib s0 s \<longrightarrow>
      reports_ready (health s) \<and> model s \<noteq> None \<and> processor s \<noteq> None)
   \<and> ((\<exists>r. health_answer (main lib s0) = Some r \<and> reports_ready r)
        \<longleftrightarrow> (\<exists>s'. load_model lib s0 = Inr s'))
   \<and> (\<forall>e. load_model lib s0 = Inl e \<longrightarrow> health_answer (main lib s0) = None)"
proof -
  have 1: "reports_ready (health s) \<and> model s \<noteq> None \<and> processor s \<noteq> None"
    if "serving lib s0 s"
    using serving_loaded [OF that] health_ready [of s] by simp
  have 2: "(\<exists>r. health_answer (main lib s0) = Some r \<and> reports_ready r)
             \<longleftrightarrow> (\<exists>s'. load_model lib s0 = Inr s')"
    by (cases "load_model lib s0") (simp_all add: main_def health_answer_def health_ready)
  have 3: "health_answer (main lib s0) = None" if "load_model lib s0 = Inl e" for e
    using that by (simp add: main_def health_answer_def)
  from 1 2 3 show ?thesis by blast
qed

theorem health_reflects_readiness_witness:
  "serving demo_libs unloaded_server demo_server
   \<and> reports_ready (health demo_server) \<and> model demo_server \<noteq> None
   \<and> load_model broken_libs unloaded_server
       = Inl (Exn ''OSError'' ''model-1.7b is not a valid model directory'')
   \<and> health_answer (main broken_libs unloaded_server) = None"
  using health_reflects_readiness [of demo_libs unloaded_server demo_server]
        health_reflects_readiness [of broken_libs unloaded_server demo_server]
        demo_serving broken_load
  by simp

text \<open>
  C2 (as stated, refuted): a \<open>voice_id\<close> that resolves to no stored profile never makes the
  request fail. With the number 5 as \<open>voice_id\<close>, \<open>os.path.join\<close> raises a \<open>TypeError\<close> and
  the answer is 500, while the same request without \<open>voice_id\<close> is answered 200 with the
  unconditioned audio.
\<close>

theorem number_voice_id_counterexample:
  "fst (text_to_speech demo_libs number_voice_request 7 alice_server)
     = \<lparr>status = 500,
        body = JsonBody (JObj [(''error'',
                 JStr ''expected str, bytes or os.PathLike object, not int'')])\<rparr>
   \<and> without_voice_id number_voice_request = hello_request
   \<and> fst (text_to_speech demo_libs hello_request 7 alice_server)
     = \<lparr>status = 200, body = FileBody ''audio/wav'' (Wav 24000 [10])\<rparr>"
  by (simp add: number_voice_request_tts hello_request_tts)
     (simp add: without_voice_id_def number_voice_request_def hello_request_def)

text \<open>
  C2 (amended): with \<open>voice_id\<close> absent, false (the empty string, \<open>null\<close>, 0, \<open>false\<close>, an
  empty list or object), or a string for which no \<open>reference.wav\<close> is found under the
  voices directory, the processor is called with the text alone and the whole response
  is the one the same request without \<open>voice_id\<close> gets, so resolving the voice adds no
  failure; with a string \<open>voice_id\<close> whose \<open>reference.wav\<close> exists, the processor is called
  with the text and that file as \<open>audio\<close>.
\<close>

theorem tts_voice_resolution:
  assumes "get_json req = JObj data"
    and "text = dict_get data ''text'' (JStr '''')"
    and "vid = dict_get data ''voice_id'' (JStr '''')"
  shows "(\<not> truthy vid \<or> (\<exists>v. vid = JStr v \<and> \<not> os_path_exists (disk s) (reference_path s v))
            \<longrightarrow> prepare_inputs s text vid = call_processor s text None
                \<and> text_to_speech lib req now s = text_to_speech lib (without_voice_id req) now s)
         \<and> (\<forall>v. vid = JStr v \<and> v \<noteq> [] \<and> os_path_exists (disk s) (reference_path s v)
            \<longrightarrow> prepare_inputs s text vid = call_processor s text (Some (reference_path s v)))"
proof (intro conjI impI allI)
  assume u: "\<not> truthy vid \<or> (\<exists>v. vid = JStr v \<and> \<not> os_path_exists (disk s) (reference_path s v))"
  show "prepare_inputs s text vid = call_processor s text None"
    by (rule prepare_inputs_unconditioned [OF u])
  have "tts_try lib now s text vid = tts_try lib now s text (JStr '''')"
    by (rule tts_try_unconditioned [OF u])
  then show "text_to_speech lib req now s = text_to_speech lib (without_voice_id req) now s"
    using assms
    by (simp add: text_to_speech_def without_voice_id_def dict_get_filter_other
          dict_get_filter_same Let_def)
next
  fix v
  assume "vid = JStr v \<and> v \<noteq> [] \<and> os_path_exists (disk s) (reference_path s v)"
  then show "prepare_inputs s text vid = call_processor s text (Some (reference_path s v))"
    by (simp add: prepare_inputs_def reference_path_def)
qed

theorem tts_voice_resolution_witness:
  "prepare_inputs alice_server (JStr ''hello world'') (JStr ''0badc0de'') = Inr 10
   \<and> text_to_speech demo_libs (voice_request ''0badc0de'') 7 alice_server
       = text_to_speech demo_libs (without_voice_id (voice_request ''0badc0de'')) 7 alice_server
   \<and> without_voice_id (voice_request ''0badc0de'') = hello_request
   \<and> prepare_inputs alice_server (JStr ''hello world'') (JStr ''deadbeef'') = Inr 20"
  using tts_voice_resolution
          [of "voice_request ''0badc0de''"
              "[(''text'', JStr ''hello world''), (''voice_id'', JStr ''0badc0de'')]"
              "JStr ''hello world''" "JStr ''0badc0de''" alice_server demo_libs 7]
        tts_voice_resolution
          [of "voice_request ''deadbeef''"
              "[(''text'', JStr ''hello world''), (''voice_id'', JStr ''deadbeef'')]"
              "JStr ''hello world''" "JStr ''deadbeef''" alice_server demo_libs 7]
        alice_resolves nobody_unresolved
  by (simp add: voice_request_def hello_request_def dict_get_def without_voice_id_def
        alice_processor)

text \<open>
  C3 (as stated, refuted): two successful clone calls never return the same voice id. Two
  different \<open>uuid4\<close> draws that agree on their first eight characters give two successful
  calls with the same id \<open>deadbeef\<close>; the second call reuses the directory of the first,
  and the listing afterwards shows one voice, the second.
\<close>

theorem voice_id_collision_counterexample:
  "uuid_a \<noteq> uuid_b
   \<and> fst (clone_voice clone_request uuid_a 7 demo_server)
       = \<lparr>status = 200,
          body = JsonBody (JObj [(''voice_id'', JStr ''deadbeef''), (''name'', JStr ''Alice'')])\<rparr>
   \<and> fst (clone_voice bob_request uuid_b 8 (snd (clone_voice clone_request uuid_a 7 demo_server)))
       = \<lparr>status = 200,
          body = JsonBody (JObj [(''voice_id'', JStr ''deadbeef''), (''name'', JStr ''Bob'')])\<rparr>
   \<and> list_voices (snd (clone_voice bob_request uuid_b 8
                          (snd (clone_voice clone_request uuid_a 7 demo_server))))
       = \<lparr>status = 200,
          body = JsonBody (JObj [(''voices'',
            JArr [JObj [(''name'', JStr ''Bob''), (''voice_id'', JStr ''deadbeef''),
                        (''audio'', JStr ''/home/u/qwen3-tts/voices/deadbeef/reference.wav'')]])])\<rparr>"
  by (simp add: alice_clone bob_clone_collides bob_replaces_alice)
     (simp add: uuid_a_def uuid_b_def)

text \<open>
  C3 (amended): the voice id a successful clone call returns is the first eight characters
  of the \<open>uuid4\<close> string drawn for it, so two successful calls return different ids
  exactly when their draws differ within the first eight characters; no call looks for
  an existing voice of that id or draws again.
\<close>

theorem voice_ids_differ_iff_prefixes_differ:
  assumes "fst (clone_voice req1 u1 now1 s1)
             = jsonify 200 (JObj [(''voice_id'', JStr i1), (''name'', JStr n1)])"
    and "fst (clone_voice req2 u2 now2 s2)
             = jsonify 200 (JObj [(''voice_id'', JStr i2), (''name'', JStr n2)])"
  shows "i1 = take 8 u1 \<and> i2 = take 8 u2 \<and> (i1 \<noteq> i2 \<longleftrightarrow> take 8 u1 \<noteq> take 8 u2)"
  using clone_voice_ok_id [OF assms(1)] clone_voice_ok_id [OF assms(2)] by simp

theorem voice_ids_differ_iff_prefixes_differ_witness:
  "fst (clone_voice clone_request uuid_a 7 demo_server)
     = jsonify 200 (JObj [(''voice_id'', JStr ''deadbeef''), (''name'', JStr ''Alice'')])
   \<and> fst (clone_voice bob_request uuid_c 8 alice_server)
     = jsonify 200 (JObj [(''voice_id'', JStr ''0badc0de''), (''name'', JStr ''Bob'')])
   \<and> ''deadbeef'' = take 8 uuid_a \<and> ''0badc0de'' = take 8 uuid_c
   \<and> (''deadbeef'' \<noteq> ''0badc0de'' \<longleftrightarrow> take 8 uuid_a \<noteq> take 8 uuid_c)"
proof -
  have 1: "fst (clone_voice clone_request uuid_a 7 demo_server)
     = jsonify 200 (JObj [(''voice_id'', JStr ''deadbeef''), (''name'', JStr ''Alice'')])"
    by (simp add: alice_clone jsonify_def)
  have 2: "fst (clone_voice bob_request uuid_c 8 alice_server)
     = jsonify 200 (JObj [(''voice_id'', JStr ''0badc0de''), (''name'', JStr ''Bob'')])"
    by (simp add: bob_clone_fresh jsonify_def)
  from voice_ids_differ_iff_prefixes_differ [OF 1 2] 1 2 show ?thesis by blast
qed

text \<open>
  C4 (as stated, refuted): a directory whose metadata record is corrupt is skipped and never
  makes the listing report an error. With a directory whose \<open>meta.json\<close> is an empty file,
  \<open>json.load\<close> raises and the listing is answered 500, although Alice's record is valid.
\<close>

theorem corrupt_record_counterexample:
  "os_listdir (disk corrupt_server) (VOICES_DIR (home corrupt_server))
     = Inr [''deadbeef'', ''cafebabe'']
   \<and> read_file (disk corrupt_server) (meta_path corrupt_server ''cafebabe'') = Inr (Bytes [])
   \<and> json_load (Bytes []) = Inl (Exn ''JSONDecodeError'' ''Expecting value'')
   \<and> list_voices corrupt_server = \<lparr>status = 500, body = ErrorPage\<rparr>"
  using corrupt_entry corrupt_listing by simp

text \<open>
  C4 (amended): when the voices directory can be listed and every \<open>meta.json\<close> found in its
  entries holds a JSON document, the listing is answered 200 with exactly the documents
  of the entries that have a \<open>meta.json\<close>, in the order of the directory listing; an entry
  without \<open>meta.json\<close> is skipped and gives no error.
\<close>

theorem list_voices_skips_missing_records:
  assumes "os_listdir (disk s) (VOICES_DIR (home s)) = Inr ds"
    and "\<forall>d \<in> set ds. os_path_exists (disk s) (meta_path s d) \<longrightarrow>
           (\<exists>j. read_file (disk s) (meta_path s d) = Inr (JsonText j))"
  shows "list_voices s = jsonify 200 (JObj [(''voices'', JArr (concat (map (record_of s) ds)))])"
  using assms(1) list_voices_loop_parsable [OF assms(2), of "[]"]
  by (simp add: list_voices_def)

theorem list_voices_skips_missing_records_witness:
  "os_listdir (disk mixed_server) (VOICES_DIR (home mixed_server)) = Inr [''deadbeef'', ''0badc0de'']
   \<and> \<not> os_path_exists (disk mixed_server) (meta_path mixed_server ''0badc0de'')
   \<and> list_voices mixed_server = \<lparr>status = 200, body = JsonBody (JObj [(''voices'', JArr [alice_meta])])\<rparr>"
  using list_voices_skips_missing_records [of mixed_server "[''deadbeef'', ''0badc0de'']"]
        mixed_listing_facts
  by (simp add: record_of_def jsonify_def)

text \<open>
  C5 (as stated, refuted): a Clone request is rejected when the audio payload is empty. A
  request whose \<open>audio\<close> part is an upload of zero bytes is answered 200 with a new voice id.
\<close>

theorem empty_audio_accepted_counterexample:
  "map_of (files empty_audio_request) ''audio'' = Some (Bytes [])
   \<and> fst (clone_voice empty_audio_request uuid_a 7 demo_server)
       = \<lparr>status = 200,
          body = JsonBody (JObj [(''voice_id'', JStr ''deadbeef''), (''name'', JStr ''voice_7'')])\<rparr>"
  by (simp add: clone_voice_def demo_server_def demo_eval dict_get_def jsonify_def fs_eval path_eval)

text \<open>
  C5 (amended): a Clone request is answered 400 exactly when it has no \<open>audio\<close> part, and
  then nothing changes; a request with an \<open>audio\<close> part, empty or not, is answered 200 with
  the new voice id (the first eight characters of the drawn uuid) and the name (the
  \<open>name\<close> field, or \<open>voice_\<close> followed by the time in seconds when there is none), or 500 when
  one of the three file operations raises; on a disk whose voices directory exists and
  where nothing is in the way of the new directory and its two files, it is answered 200.
\<close>

theorem clone_rejects_missing_audio_only:
  "(status (fst (clone_voice req u now s)) = 400 \<longleftrightarrow> map_of (files req) ''audio'' = None)
   \<and> (map_of (files req) ''audio'' = None \<longrightarrow>
         clone_voice req u now s = (jsonify 400 (JObj [(''error'', JStr ''No audio file'')]), s))
   \<and> (map_of (files req) ''audio'' \<noteq> None \<longrightarrow>
         fst (clone_voice req u now s) =
           jsonify 200 (JObj [(''voice_id'', JStr (take 8 u)),
              (''name'', JStr (dict_get (form req) ''name'' (''voice_'' @ str_int now)))])
         \<or> fst (clone_voice req u now s) = internal_server_error)
   \<and> (map_of (files req) ''audio'' \<noteq> None \<and> hex8 u
        \<and> (\<exists>Vp. voices_at (home s) (disk s) Vp \<and> registry_accepts (disk s) Vp (take 8 u)) \<longrightarrow>
         fst (clone_voice req u now s) =
           jsonify 200 (JObj [(''voice_id'', JStr (take 8 u)),
              (''name'', JStr (dict_get (form req) ''name'' (''voice_'' @ str_int now)))]))"
proof -
  let ?ok = "jsonify 200 (JObj [(''voice_id'', JStr (take 8 u)),
              (''name'', JStr (dict_get (form req) ''name'' (''voice_'' @ str_int now)))])"
  have 1: "status (fst (clone_voice req u now s)) = 400 \<longleftrightarrow> map_of (files req) ''audio'' = None"
  proof (cases "map_of (files req) ''audio''")
    case None
    then show ?thesis by (simp add: clone_voice_def jsonify_def)
  next
    case (Some a)
    with clone_voice_outcomes [OF Some, of u now s] show ?thesis
      by (auto simp: jsonify_def internal_server_error_def)
  qed
  have 2: "clone_voice req u now s = (jsonify 400 (JObj [(''error'', JStr ''No audio file'')]), s)"
    if "map_of (files req) ''audio'' = None"
    using that by (simp add: clone_voice_def)
  have 3: "fst (clone_voice req u now s) = ?ok
           \<or> fst (clone_voice req u now s) = internal_server_error"
    if "map_of (files req) ''audio'' \<noteq> None"
    using that clone_voice_outcomes [of req _ u now s] by auto
  have 4: "fst (clone_voice req u now s) = ?ok"
    if "map_of (files req) ''audio'' \<noteq> None \<and> hex8 u
        \<and> (\<exists>Vp. voices_at (home s) (disk s) Vp \<and> registry_accepts (disk s) Vp (take 8 u))"
  proof -
    from that obtain a Vp where "map_of (files req) ''audio'' = Some a"
      "voices_at (home s) (disk s) Vp" "registry_accepts (disk s) Vp (take 8 u)" by auto
    from clone_voice_succeeds [OF this(2) hex8_plain this(3) this(1)] that
    show ?thesis by simp
  qed
  from 1 2 3 4 show ?thesis by blast
qed

theorem clone_rejects_missing_audio_only_witness:
  "map_of (files hello_request) ''audio'' = None
   \<and> clone_voice hello_request uuid_a 7 demo_server
       = (\<lparr>status = 400, body = JsonBody (JObj [(''error'', JStr ''No audio file'')])\<rparr>,
          demo_server)
   \<and> map_of (files clone_request) ''audio'' \<noteq> None \<and> hex8 uuid_a
   \<and> fst (clone_voice clone_request uuid_a 7 demo_server)
       = \<lparr>status = 200,
          body = JsonBody (JObj [(''voice_id'', JStr ''deadbeef''), (''name'', JStr ''Alice'')])\<rparr>"
proof -
  have 1: "map_of (files hello_request) ''audio'' = None" by (simp add: hello_request_def)
  have 2: "map_of (files clone_request) ''audio'' \<noteq> None" by (simp add: clone_request_def)
  from clone_rejects_missing_audio_only [of hello_request uuid_a 7 demo_server] 1
  have a: "clone_voice hello_request uuid_a 7 demo_server
       = (jsonify 400 (JObj [(''error'', JStr ''No audio file'')]), demo_server)" by blast
  from clone_rejects_missing_audio_only [of clone_request uuid_a 7 demo_server] 2 hex8_uuid_a
    demo_accepts
  have b: "fst (clone_voice clone_request uuid_a 7 demo_server) =
           jsonify 200 (JObj [(''voice_id'', JStr (take 8 uuid_a)),
              (''name'', JStr (dict_get (form clone_request) ''name'' (''voice_'' @ str_int 7)))])"
    by blast
  from 1 2 a b hex8_uuid_a show ?thesis
    by (simp add: jsonify_def uuid_a_def clone_request_def dict_get_def)
qed

text \<open>
  C6 (as stated, refuted): no persisted state has audio without metadata. The disk between
  the two writes of a \<open>clone_voice\<close> call is a persisted state; on it the new profile
  directory holds \<open>reference.wav\<close> and no \<open>meta.json\<close>.
\<close>

theorem audio_without_metadata_counterexample:
  "persisted ''/home/u'' half_cloned_disk
   \<and> os_path_exists half_cloned_disk ''/home/u/qwen3-tts/voices/deadbeef/reference.wav''
   \<and> \<not> os_path_exists half_cloned_disk ''/home/u/qwen3-tts/voices/deadbeef/meta.json''"
  using half_cloned_persisted half_cloned_exists by simp

text \<open>
  C6 (amended): on every persisted disk, a profile directory that holds a \<open>meta.json\<close> holds
  a \<open>reference.wav\<close>; and a \<open>clone_voice\<close> call whose three file operations complete leaves
  both files in the directory of the new voice. (The audio is written first, so audio
  without metadata can be found; metadata without audio cannot.)
\<close>

theorem persisted_metadata_has_audio:
  assumes "persisted h fs"
  shows "(\<forall>d. plain_name d \<longrightarrow>
            os_path_exists fs (os_path_join (VOICES_DIR h) [d, ''meta.json'']) \<longrightarrow>
            os_path_exists fs (os_path_join (VOICES_DIR h) [d, ''reference.wav'']))
         \<and> (\<forall>req u now fs1 fs2 fs3.
               hex8 u \<and> clone_voice_disks req u now h fs = [fs1, fs2, fs3] \<longrightarrow>
               os_path_exists fs3 (os_path_join (VOICES_DIR h) [take 8 u, ''reference.wav''])
               \<and> os_path_exists fs3 (os_path_join (VOICES_DIR h) [take 8 u, ''meta.json'']))"
proof -
  from persisted_invariant [OF assms] obtain Vp
    where v: "voices_at h fs Vp" and i: "meta_has_audio fs Vp" by blast
  have "os_path_exists fs (os_path_join (VOICES_DIR h) [d, ''reference.wav''])"
    if "plain_name d" "os_path_exists fs (os_path_join (VOICES_DIR h) [d, ''meta.json''])" for d
    using that i by (simp add: exists_in_voice_dir [OF v] meta_has_audio_def)
  moreover have "os_path_exists fs3 (os_path_join (VOICES_DIR h) [take 8 u, ''reference.wav''])
      \<and> os_path_exists fs3 (os_path_join (VOICES_DIR h) [take 8 u, ''meta.json''])"
    if "hex8 u" "clone_voice_disks req u now h fs = [fs1, fs2, fs3]" for req u now fs1 fs2 fs3
    using clone_voice_disks_complete [OF v hex8_plain that(2)] that(1) by simp
  ultimately show ?thesis by blast
qed

theorem persisted_metadata_has_audio_witness:
  "persisted ''/home/u'' demo_disk
   \<and> hex8 uuid_a
   \<and> clone_voice_disks clone_request uuid_a 7 ''/home/u'' demo_disk
       = [demo_disk @ [([''home'', ''u'', ''qwen3-tts'', ''voices'', ''deadbeef''], Dir)],
          half_cloned_disk, alice_disk]
   \<and> os_path_exists alice_disk ''/home/u/qwen3-tts/voices/deadbeef/reference.wav''
   \<and> os_path_exists alice_disk ''/home/u/qwen3-tts/voices/deadbeef/meta.json''"
proof -
  from persisted_metadata_has_audio [OF demo_persisted]
  have "hex8 uuid_a \<and> clone_voice_disks clone_request uuid_a 7 ''/home/u'' demo_disk
            = [demo_disk @ [([''home'', ''u'', ''qwen3-tts'', ''voices'', ''deadbeef''], Dir)],
               half_cloned_disk, alice_disk] \<longrightarrow>
        os_path_exists alice_disk
          (os_path_join (VOICES_DIR ''/home/u'') [take 8 uuid_a, ''reference.wav''])
        \<and> os_path_exists alice_disk
          (os_path_join (VOICES_DIR ''/home/u'') [take 8 uuid_a, ''meta.json''])"
    by blast
  with hex8_uuid_a demo_clone_disks demo_persisted show ?thesis
    by (simp add: uuid_a_def os_path_join_def join2_def)
qed

text \<open>
  C7 (as stated, refuted): every Synthesize request with missing text is answered with a
  client error. A request whose JSON body is \<open>null\<close> carries no text; \<open>data.get\<close> raises
  outside the \<open>try\<close> and the answer is status 500 with the error page.
\<close>

theorem null_body_counterexample:
  "fst (text_to_speech demo_libs null_body_request 7 demo_server)
     = \<lparr>status = 500, body = ErrorPage\<rparr>"
  by (simp add: text_to_speech_def null_body_request_def internal_server_error_def)

text \<open>
  C7 (amended): a Synthesize request whose JSON body is an object with no \<open>text\<close> member, or
  with one that is false (the empty string, \<open>null\<close>, 0, \<open>false\<close>, an empty list or object),
  is answered 400 and nothing else happens: the server (its disk, with the output
  directory, and its globals) is returned as it was, whatever the libraries, the
  processor and the model are, so none of them is called. A body that is not an object
  leaves the server as it was, too.
\<close>

theorem tts_empty_text_rejected:
  "(\<forall>data. get_json req = JObj data \<and> \<not> truthy (dict_get data ''text'' (JStr '''')) \<longrightarrow>
      text_to_speech lib req now s =
        (jsonify 400 (JObj [(''error'', JStr ''No text provided'')]), s))
   \<and> ((\<forall>data. get_json req \<noteq> JObj data) \<longrightarrow> snd (text_to_speech lib req now s) = s)"
  by (cases "get_json req") (auto simp: text_to_speech_def)

theorem tts_empty_text_rejected_witness:
  "text_to_speech demo_libs \<lparr>files = [], form = [], get_json = JObj [(''text'', JStr '''')]\<rparr> 7
       demo_server
     = (\<lparr>status = 400, body = JsonBody (JObj [(''error'', JStr ''No text provided'')])\<rparr>,
        demo_server)
   \<and> text_to_speech demo_libs \<lparr>files = [], form = [], get_json = JObj []\<rparr> 7 demo_server
     = (\<lparr>status = 400, body = JsonBody (JObj [(''error'', JStr ''No text provided'')])\<rparr>,
        demo_server)
   \<and> text_to_speech demo_libs \<lparr>files = [], form = [], get_json = JObj [(''text'', JNull)]\<rparr> 7
       demo_server
     = (\<lparr>status = 400, body = JsonBody (JObj [(''error'', JStr ''No text provided'')])\<rparr>,
        demo_server)
   \<and> snd (text_to_speech demo_libs null_body_request 7 demo_server) = demo_server"
  using tts_empty_text_rejected
          [of "\<lparr>files = [], form = [], get_json = JObj [(''text'', JStr '''')]\<rparr>"
              demo_libs 7 demo_server]
        tts_empty_text_rejected
          [of "\<lparr>files = [], form = [], get_json = JObj []\<rparr>" demo_libs 7 demo_server]
        tts_empty_text_rejected
          [of "\<lparr>files = [], form = [], get_json = JObj [(''text'', JNull)]\<rparr>"
              demo_libs 7 demo_server]
        tts_empty_text_rejected [of null_body_request demo_libs 7 demo_server]
  by (simp add: jsonify_def dict_get_def null_body_request_def)

text \<open>
  C8: whenever an exception leaves the body of the \<open>try\<close> of \<open>text_to_speech\<close> (raised by the
  processor, the move to the device, the model, the decoding, the writing or the sending
  of the file), the handler returns status 500 with the JSON body \<open>{"error": str(e)}\<close>, and
  the server goes on with the same model, processor and directories.
\<close>

theorem tts_failure_is_caught:
  assumes "get_json req = JObj data"
    and "truthy (dict_get data ''text'' (JStr ''''))"
    and "tts_try lib now s (dict_get data ''text'' (JStr ''''))
           (dict_get data ''voice_id'' (JStr '''')) = (Inl e, s')"
  shows "text_to_speech lib req now s = (jsonify 500 (JObj [(''error'', JStr (message e))]), s')
         \<and> model s' = model s \<and> processor s' = processor s \<and> home s' = home s"
  using assms tts_try_keeps_globals [OF assms(3)]
  by (simp add: text_to_speech_def)

theorem tts_failure_is_caught_witness:
  "text_to_speech demo_libs hello_request 7 failing_server
     = (\<lparr>status = 500, body = JsonBody (JObj [(''error'', JStr ''MPS backend out of memory'')])\<rparr>,
        failing_server)
   \<and> model failing_server = Some failing_model"
  using tts_failure_is_caught
          [of hello_request "[(''text'', JStr ''hello world'')]" demo_libs 7 failing_server
              "Exn ''RuntimeError'' ''MPS backend out of memory''" failing_server]
        failing_server_try
  by (simp add: hello_request_def dict_get_def jsonify_def failing_server_def)

text \<open>
  C9: when the health check fails, \<open>generate\<close> exits with status 1 after printing the two
  lines of guidance on standard error; standard output and the disk are as before, and
  the only request sent is the \<open>GET\<close> of \<open>/health\<close>. When \<open>generate\<close> returns a path, that
  path is the one line it has added to standard output.
\<close>

theorem generate_needs_server:
  "(\<not> fst (check_server net c) \<longrightarrow>
      fst (generate net text voice_id now c) = Inl 1
      \<and> stdout (snd (generate net text voice_id now c)) = stdout c
      \<and> cdisk (snd (generate net text voice_id now c)) = cdisk c
      \<and> stderr (snd (generate net text voice_id now c)) = stderr c @ server_down_lines
      \<and> sent (snd (generate net text voice_id now c)) = sent c @ [GET (SERVER @ ''/health'')])
   \<and> (\<forall>p. fst (generate net text voice_id now c) = Inr p \<longrightarrow>
         stdout (snd (generate net text voice_id now c)) = stdout c @ [p]
         \<and> stderr (snd (generate net text voice_id now c)) = stderr c)"
  by (auto simp: generate_def check_server_def urlopen_get_def urlopen_post_def Let_def
           split: sum.splits prod.splits bool.splits url_exn.splits)

theorem generate_needs_server_witness:
  "\<not> fst (check_server dead_network demo_client)
   \<and> fst (generate dead_network ''bonjour'' None 7 demo_client) = Inl 1
   \<and> stdout (snd (generate dead_network ''bonjour'' None 7 demo_client)) = []
   \<and> cdisk (snd (generate dead_network ''bonjour'' None 7 demo_client)) = cdisk demo_client
   \<and> sent (snd (generate dead_network ''bonjour'' None 7 demo_client))
       = [GET ''http://localhost:5123/health'']
   \<and> fst (generate live_network ''bonjour'' None 7 demo_client)
       = Inr ''/home/u/.clawdbot/media/tts/tts_7.wav''
   \<and> stdout (snd (generate live_network ''bonjour'' None 7 demo_client))
       = [''/home/u/.clawdbot/media/tts/tts_7.wav'']"
  using generate_needs_server [of dead_network demo_client "''bonjour''" None 7]
        generate_needs_server [of live_network demo_client "''bonjour''" None 7]
        dead_check live_generate
  by (simp add: demo_client_def SERVER_def)

text \<open>
  C10: the \<open>voice_id\<close> of a Synthesize request is joined under the voices directory as it
  comes. With \<open>../../secret\<close>, or with the absolute \<open>/home/u/secret\<close>, the path of the
  reference audio resolves to \<open>/home/u/secret/reference.wav\<close>, outside the voices
  directory; the file exists there, so the processor is called with it as \<open>audio\<close> and the
  request is answered with the conditioned synthesis.
\<close>

theorem voice_id_escapes_voices_directory:
  "reference_path escape_server ''../../secret''
     = ''/home/u/qwen3-tts/voices/../../secret/reference.wav''
   \<and> resolve (disk escape_server) (reference_path escape_server ''../../secret'')
       = Inr [''home'', ''u'', ''secret'', ''reference.wav'']
   \<and> resolve (disk escape_server) (VOICES_DIR (home escape_server))
       = Inr [''home'', ''u'', ''qwen3-tts'', ''voices'']
   \<and> \<not> inside_voices escape_server (reference_path escape_server ''../../secret'')
   \<and> prepare_inputs escape_server (JStr ''hello world'') (JStr ''../../secret'')
       = call_processor escape_server (JStr ''hello world'')
           (Some ''/home/u/qwen3-tts/voices/../../secret/reference.wav'')
   \<and> fst (text_to_speech demo_libs (voice_request ''../../secret'') 7 escape_server)
       = \<lparr>status = 200, body = FileBody ''audio/wav'' (Wav 24000 [20])\<rparr>
   \<and> reference_path escape_server ''/home/u/secret'' = ''/home/u/secret/reference.wav''
   \<and> \<not> inside_voices escape_server (reference_path escape_server ''/home/u/secret'')
   \<and> prepare_inputs escape_server (JStr ''hello world'') (JStr ''/home/u/secret'')
       = call_processor escape_server (JStr ''hello world'') (Some ''/home/u/secret/reference.wav'')"
  using escape_paths escape_resolves escape_tts
  by (simp add: inside_voices_def prepare_inputs_def reference_path_def)

end
